theory Spec2Isabelle
  imports Complex_Main "HOL-Library.Sublist" "HOL-Library.While_Combinator"
begin

section \<open>Strings as Python sees them\<close>

text \<open>
  A Python \<open>str\<close> is modelled as a \<open>string\<close>; a \<open>char\<close> stands for the code point of the
  same number (code points below 256).  \<open>is_space\<close> is the set of code points for which
  \<open>str.isspace\<close> holds, which is also what \<open>\s\<close> matches in a \<open>str\<close> pattern and what
  \<open>str.strip\<close> removes.
\<close>

definition is_space :: "char \<Rightarrow> bool" where
  "is_space c =
     (let n = of_char c :: nat
      in (9 \<le> n \<and> n \<le> 13) \<or> (28 \<le> n \<and> n \<le> 32) \<or> n = 133 \<or> n = 160)"

definition lstrip :: "string \<Rightarrow> string" where
  "lstrip s = dropWhile is_space s"

definition rstrip :: "string \<Rightarrow> string" where
  "rstrip s = rev (dropWhile is_space (rev s))"

definition strip :: "string \<Rightarrow> string" where
  "strip s = rstrip (lstrip s)"

definition startswith :: "string \<Rightarrow> string \<Rightarrow> bool" where
  "startswith s p = (take (length p) s = p)"

definition endswith :: "string \<Rightarrow> string \<Rightarrow> bool" where
  "endswith s p = (length p \<le> length s \<and> drop (length s - length p) s = p)"

text \<open>\<open>sep.join(parts)\<close>.\<close>

fun join :: "string \<Rightarrow> string list \<Rightarrow> string" where
  "join sep [] = []"
| "join sep [x] = x"
| "join sep (x # y # ys) = x @ sep @ join sep (y # ys)"

text \<open>
  \<open>DEFAULT_SPLIT_PATTERN\<close> is \<open>re.compile("(\s+)")\<close>; \<open>split_ws\<close> is its \<open>split\<close> method: the
  text between the runs of whitespace and, the group being a capturing one, the runs
  themselves, in turn.  The first and the last part may be empty.
\<close>

function split_ws :: "string \<Rightarrow> string list" where
  "split_ws s =
     (let part = takeWhile (\<lambda>c. \<not> is_space c) s;
          rest = dropWhile (\<lambda>c. \<not> is_space c) s
      in if rest = [] then [part]
         else part # takeWhile is_space rest # split_ws (dropWhile is_space rest))"
  by pat_completeness auto

lemma dropWhile_space_shorter:
  assumes "dropWhile (\<lambda>c. \<not> is_space c) s \<noteq> []"
  shows "length (dropWhile is_space (dropWhile (\<lambda>c. \<not> is_space c) s)) < length s"
proof -
  obtain c cs where r: "dropWhile (\<lambda>c. \<not> is_space c) s = c # cs"
    using assms by (cases "dropWhile (\<lambda>c. \<not> is_space c) s") auto
  have "is_space c"
    using hd_dropWhile[of "\<lambda>c. \<not> is_space c" s] assms r by auto
  then have "length (dropWhile is_space (c # cs)) \<le> length cs"
    by (simp add: length_dropWhile_le)
  moreover have "length (c # cs) \<le> length s"
    using r length_dropWhile_le[of "\<lambda>c. \<not> is_space c" s] by simp
  ultimately show ?thesis using r by simp
qed

termination split_ws
  by (relation "measure length") (auto simp: dropWhile_space_shorter)

text \<open>
  Modelled from the spec: \<open>grouper\<close> of \<open>gruut.utils\<close> is not among the sources.  Its
  callers unpack \<open>grouper(parts, 2)\<close> into a part and the separator after it and read a
  missing separator as empty (\<open>sep_str or ""\<close>): chunks of two, the last one filled with
  \<open>None\<close>.
\<close>

fun grouper :: "'a list \<Rightarrow> ('a \<times> 'a option) list" where
  "grouper [] = []"
| "grouper [x] = [(x, None)]"
| "grouper (x # y # zs) = (x, Some y) # grouper zs"

definition or_empty :: "string option \<Rightarrow> string" where
  "or_empty x = (case x of None \<Rightarrow> [] | Some y \<Rightarrow> y)"

text \<open>
  Modelled from the spec: \<open>get_whitespace\<close> of \<open>gruut.utils\<close> (the default of the setting
  of that name) is not among the sources; the setting "returns leading, trailing
  whitespace from a string".
\<close>

definition default_get_whitespace :: "string \<Rightarrow> string \<times> string" where
  "default_get_whitespace s = (takeWhile is_space s, rev (takeWhile is_space (rev s)))"

text \<open>
  Modelled from the spec: \<open>normalize_whitespace\<close> of \<open>gruut.utils\<close> is not among the
  sources; a sentence's \<open>text\<close> is its \<open>text_with_ws\<close> "normalized for whitespace": the
  edges stripped and every inner run of whitespace replaced by one space.
\<close>

definition default_normalize_whitespace :: "string \<Rightarrow> string" where
  "default_normalize_whitespace s =
     concat (map (\<lambda>(part, sep). part @ (if sep = None then [] else '' ''))
                 (grouper (split_ws (strip s))))"

text \<open>
  Modelled from the spec: \<open>has_digit\<close> of \<open>gruut.utils\<close>, the default of the three
  \<open>is_maybe\<close> predicates, is not among the sources; by its name, the text has a digit.
\<close>

definition is_digit :: "char \<Rightarrow> bool" where
  "is_digit c = (let n = of_char c :: nat in 48 \<le> n \<and> n \<le> 57)"

definition has_digit :: "string \<Rightarrow> bool" where
  "has_digit s = list_ex is_digit s"

section \<open>Exceptions\<close>

text \<open>
  A call that does not return a value: it raises, or (\<open>Diverges\<close>) it runs forever.
  \<open>Unmodelled\<close> is the answer of the model of a library to an input that the model does
  not cover.
\<close>

datatype py_exn =
    AssertionError
  | StopIteration
  | ValueError
  | RecursionError
  | KeyError
  | InvalidOperation
  | ParseError
  | CollaboratorError string
  | Unmodelled
  | Diverges

text \<open>Sequencing of calls that may raise: the first exception leaves the sequence.\<close>

definition bind_exn :: "py_exn + 'a \<Rightarrow> ('a \<Rightarrow> py_exn + 'b) \<Rightarrow> py_exn + 'b" where
  "bind_exn r f = (case r of Inl e \<Rightarrow> Inl e | Inr x \<Rightarrow> f x)"

fun fold_exn :: "('a \<Rightarrow> 's \<Rightarrow> py_exn + 's) \<Rightarrow> 'a list \<Rightarrow> 's \<Rightarrow> py_exn + 's" where
  "fold_exn f [] s = Inr s"
| "fold_exn f (x # xs) s = bind_exn (f x s) (fold_exn f xs)"


section \<open>Nodes of the graph\<close>

text \<open>
  \<open>InterpretAs\<close> and \<open>InterpretAsFormat\<close> are string enumerations; a \<open>say-as\<close> element may
  carry any string, so the fields are strings and the empty string means unset.
\<close>

definition SPELL_OUT :: string where "SPELL_OUT = ''spell-out''"
definition DATE :: string where "DATE = ''date''"
definition NUMBER :: string where "NUMBER = ''number''"
definition CURRENCY :: string where "CURRENCY = ''currency''"

definition NUMBER_CARDINAL :: string where "NUMBER_CARDINAL = ''cardinal''"
definition NUMBER_ORDINAL :: string where "NUMBER_ORDINAL = ''ordinal''"
definition NUMBER_DIGITS :: string where "NUMBER_DIGITS = ''digits''"
definition NUMBER_YEAR :: string where "NUMBER_YEAR = ''year''"

definition ROLE_LETTER :: string where "ROLE_LETTER = ''gruut:letter''"
definition ROLE_DEFAULT :: string where "ROLE_DEFAULT = []"

text \<open>
  \<open>Decimal\<close>: a finite value (a rational), or one of the special values that
  \<open>Decimal(string)\<close> also accepts.
\<close>

datatype decimal = Finite rat | Infinity | NegInfinity | NaN

text \<open>A \<open>datetime\<close>, as far as the pipeline reads it: year, month, day.\<close>

datatype datetime = Datetime (dt_year: int) (dt_month: nat) (dt_day: nat)

datatype break_type = MAJOR | MINOR

record node_base =
  node :: nat
  implicit :: bool
  lang :: string
  voice :: string

record word_node = node_base +
  wtext :: string
  text_with_ws :: string
  interpret_as :: string
  format :: string
  number :: "decimal option"
  date :: "datetime option"
  currency_symbol :: "string option"
  currency_name :: "string option"
  role :: string
  pos :: "string option"
  phonemes :: "string list option"

record break_word_node = node_base +
  bw_break_type :: break_type
  bw_text :: string
  bw_text_with_ws :: string

record punctuation_word_node = node_base +
  pw_text :: string
  pw_text_with_ws :: string

record break_node = node_base +
  time :: string

datatype gnode =
    SpeakNode node_base
  | ParagraphNode node_base
  | SentenceNode node_base
  | WordNode word_node
  | BreakWordNode break_word_node
  | PunctuationWordNode punctuation_word_node
  | BreakNode break_node
  | IgnoreNode node_base

section \<open>Settings\<close>

text \<open>
  A compiled regular expression is an object of the \<open>re\<close> library.  Each pattern of the
  settings is used through one method only, so it is modelled by that method:
  \<open>re_split\<close> is \<open>pattern.split(s)\<close> (for the punctuation patterns
  \<open>pattern.split(s, maxsplit=1)\<close>), \<open>re_subn\<close> is \<open>pattern.subn(template, s)\<close> and
  \<open>re_match\<close> is \<open>pattern.match(s)\<close>, the match object reduced to \<open>match.expand\<close>.
\<close>

type_synonym re_split = "string \<Rightarrow> string list"
type_synonym re_subn = "string \<Rightarrow> string \<Rightarrow> string \<times> nat"
type_synonym re_match = "string \<Rightarrow> (string \<Rightarrow> string) option"

text \<open>
  An element of the parsed document: its tag and its attributes, both without their
  namespaces (what \<open>tag_no_namespace\<close> and \<open>attrib_no_namespace\<close> read), its text, its
  children and its tail.
\<close>

datatype xml = Element (tag: string) (attrib: "(string \<times> string) list")
  (etext: string) (children: "xml list") (tail: string)

text \<open>
  The libraries behind the pipeline (babel, dateparser, num2words).  \<open>parse_decimal\<close>
  returns \<open>None\<close> where babel raises its \<open>ValueError\<close>; \<open>dateparser_parse\<close> takes the text,
  the \<open>STRICT_PARSING\<close> flag and the language; \<open>num2words\<close> takes the number (with
  \<open>True\<close> when it is passed as a float), the language, the \<open>to\<close> argument and the
  currency (\<open>None\<close> when the keyword is not passed), and may raise; \<open>format_month\<close> is
  \<open>babel.dates.format_date(date, "MMMM", locale)\<close>; \<open>locale_currencies\<close> lists, for a
  locale, the pairs of \<open>babel.numbers.get_currency_symbol(cn)\<close> and \<open>cn\<close>; the four
  \<open>compile\<close> functions are \<open>re.compile\<close>, seen through the method that is called on the
  compiled pattern (\<open>compile_split1\<close>: \<open>split\<close> with \<open>maxsplit=1\<close>); \<open>fromstring\<close> is
  \<open>xml.etree.ElementTree.fromstring\<close>.
\<close>

record externals =
  parse_decimal :: "string \<Rightarrow> string \<Rightarrow> decimal option"
  dateparser_parse :: "string \<Rightarrow> bool \<Rightarrow> string \<Rightarrow> datetime option"
  num2words :: "decimal \<Rightarrow> bool \<Rightarrow> string \<Rightarrow> string option \<Rightarrow> string option \<Rightarrow> py_exn + string"
  format_month :: "datetime \<Rightarrow> string \<Rightarrow> string"
  locale_currencies :: "string \<Rightarrow> (string \<times> string) list"
  compile_split :: "string \<Rightarrow> re_split"
  compile_split1 :: "string \<Rightarrow> re_split"
  compile_subn :: "string \<Rightarrow> re_subn"
  compile_match :: "string \<Rightarrow> re_match"
  fromstring :: "string \<Rightarrow> py_exn + xml"

text \<open>\<open>TextProcessorSettings\<close> after \<open>__post_init__\<close>.\<close>

record settings =
  s_lang :: string
  split_pattern :: re_split
  join_str :: string
  keep_whitespace :: bool
  is_non_word :: "(string \<Rightarrow> bool) option"
  get_whitespace :: "string \<Rightarrow> string \<times> string"
  normalize_whitespace :: "string \<Rightarrow> string"
  begin_punctuations_pattern :: "re_split option"
  end_punctuations_pattern :: "re_split option"
  replacements :: "(re_subn \<times> string) list"
  abbreviations :: "(re_match \<times> string) list"
  spell_out_words :: "char \<Rightarrow> string option"
  major_breaks_pattern :: "re_split option"
  minor_breaks_pattern :: "re_split option"
  word_breaks_pattern :: "re_split option"
  is_maybe_number :: "(string \<Rightarrow> bool) option"
  babel_locale :: string
  num2words_lang :: string
  default_currency :: string
  currencies :: "(string \<times> string) list"
  currency_symbols :: "string list"
  is_maybe_currency :: "(string \<Rightarrow> bool) option"
  dateparser_lang :: string
  is_maybe_date :: "(string \<Rightarrow> bool) option"
  default_date_format :: string
  get_parts_of_speech :: "(string list \<Rightarrow> py_exn + string list) option"
  is_initialism :: "(string \<Rightarrow> bool) option"
  split_initialism :: "(string \<Rightarrow> string list) option"
  lookup_phonemes :: "(string \<Rightarrow> string option \<Rightarrow> py_exn + string list option) option"
  guess_phonemes :: "(string \<Rightarrow> string option \<Rightarrow> py_exn + string list option) option"
  pre_process_text :: "(string \<Rightarrow> string) option"

subsection \<open>Construction of the settings\<close>

text \<open>
  The arguments of \<open>TextProcessorSettings\<close>.  A \<open>REGEX_TYPE\<close> is a string or a compiled
  pattern; a compiled pattern is given by its source (\<open>pattern.pattern\<close>) and the method
  the pipeline calls on it.  A set of strings is given by the list of its elements in
  the order in which the set is iterated; a dictionary by its items in insertion order.
\<close>

datatype 'm regex_type = Str string | Pat string 'm

record raw_settings =
  r_lang :: string
  r_split_pattern :: "re_split regex_type"
  r_join_str :: string
  r_keep_whitespace :: bool
  r_is_non_word :: "(string \<Rightarrow> bool) option"
  r_get_whitespace :: "string \<Rightarrow> string \<times> string"
  r_normalize_whitespace :: "string \<Rightarrow> string"
  r_begin_punctuations :: "string list option"
  r_begin_punctuations_pattern :: "re_split regex_type option"
  r_end_punctuations :: "string list option"
  r_end_punctuations_pattern :: "re_split regex_type option"
  r_replacements :: "(re_subn regex_type \<times> string) list"
  r_abbreviations :: "(re_match regex_type \<times> string) list"
  r_spell_out_words :: "char \<Rightarrow> string option"
  r_major_breaks :: "string list"
  r_major_breaks_pattern :: "re_split regex_type option"
  r_minor_breaks :: "string list"
  r_minor_breaks_pattern :: "re_split regex_type option"
  r_word_breaks :: "string list"
  r_word_breaks_pattern :: "re_split regex_type option"
  r_is_maybe_number :: "(string \<Rightarrow> bool) option"
  r_babel_locale :: "string option"
  r_num2words_lang :: "string option"
  r_default_currency :: string
  r_currencies :: "(string \<times> string) list"
  r_currency_symbols :: "string list"
  r_is_maybe_currency :: "(string \<Rightarrow> bool) option"
  r_dateparser_lang :: "string option"
  r_is_maybe_date :: "(string \<Rightarrow> bool) option"
  r_default_date_format :: string
  r_get_parts_of_speech :: "(string list \<Rightarrow> py_exn + string list) option"
  r_is_initialism :: "(string \<Rightarrow> bool) option"
  r_split_initialism :: "(string \<Rightarrow> string list) option"
  r_lookup_phonemes :: "(string \<Rightarrow> string option \<Rightarrow> py_exn + string list option) option"
  r_guess_phonemes :: "(string \<Rightarrow> string option \<Rightarrow> py_exn + string list option) option"
  r_pre_process_text :: "(string \<Rightarrow> string) option"

text \<open>
  \<open>re.escape\<close>: a backslash before each of the characters that are special in a pattern.
\<close>

definition backslash :: string where
  "backslash = [CHR 0x5C]"

definition re_special :: "char \<Rightarrow> bool" where
  "re_special c =
     (c \<in> set (''()[]{}?*+-|^$.&~# '' @ backslash)
      \<or> (9 \<le> (of_char c :: nat) \<and> (of_char c :: nat) \<le> 13))"

definition re_escape :: "string \<Rightarrow> string" where
  "re_escape s = concat (map (\<lambda>c. if re_special c then backslash @ [c] else [c]) s)"

text \<open>\<open>"|".join(re.escape(b) for b in literals)\<close>.\<close>

definition alternation :: "string list \<Rightarrow> string" where
  "alternation literals = join ''|'' (map re_escape literals)"

text \<open>
  Modelled from the spec: \<open>maybe_compile_regex\<close> of \<open>gruut.utils\<close> is not among the
  sources; by its name and its use on a \<open>REGEX_TYPE\<close>, it compiles a string and leaves a
  compiled pattern as it is.  The result is the method of the compiled pattern.
\<close>

definition maybe_compile_regex :: "(string \<Rightarrow> 'm) \<Rightarrow> 'm regex_type \<Rightarrow> 'm" where
  "maybe_compile_regex compile r = (case r of Str src \<Rightarrow> compile src | Pat src m \<Rightarrow> m)"

definition regex_source :: "'m regex_type \<Rightarrow> string" where
  "regex_source r = (case r of Str src \<Rightarrow> src | Pat src m \<Rightarrow> src)"

text \<open>
  The patterns of \<open>__post_init__\<close> before they are compiled.  A set that is \<open>None\<close> or
  empty is false.
\<close>

definition truthy :: "string list option \<Rightarrow> bool" where
  "truthy xs = (case xs of None \<Rightarrow> False | Some ys \<Rightarrow> ys \<noteq> [])"

definition begin_punctuations_regex :: "raw_settings \<Rightarrow> re_split regex_type option" where
  "begin_punctuations_regex raw =
     (if r_begin_punctuations_pattern raw = None \<and> truthy (r_begin_punctuations raw)
      then Some (Str (''^('' @ alternation (the (r_begin_punctuations raw)) @ '')''))
      else r_begin_punctuations_pattern raw)"

definition end_punctuations_regex :: "raw_settings \<Rightarrow> re_split regex_type option" where
  "end_punctuations_regex raw =
     (if r_end_punctuations_pattern raw = None \<and> truthy (r_end_punctuations raw)
      then Some (Str (''('' @ alternation (the (r_end_punctuations raw)) @ '')$''))
      else r_end_punctuations_pattern raw)"

definition major_breaks_regex :: "raw_settings \<Rightarrow> re_split regex_type option" where
  "major_breaks_regex raw =
     (if r_major_breaks_pattern raw = None \<and> r_major_breaks raw \<noteq> []
      then Some (Str (''((?:'' @ alternation (r_major_breaks raw) @ '')(?:'' @ backslash @ ''s+|$))''))
      else r_major_breaks_pattern raw)"

definition minor_breaks_regex :: "raw_settings \<Rightarrow> re_split regex_type option" where
  "minor_breaks_regex raw =
     (if r_minor_breaks_pattern raw = None \<and> r_minor_breaks raw \<noteq> []
      then Some (Str (''((?:'' @ alternation (r_minor_breaks raw) @ '')'' @ backslash @ ''s*)''))
      else r_minor_breaks_pattern raw)"

definition word_breaks_regex :: "raw_settings \<Rightarrow> re_split regex_type option" where
  "word_breaks_regex raw =
     (if r_word_breaks_pattern raw = None \<and> r_word_breaks raw \<noteq> []
      then Some (Str (''(?:'' @ alternation (r_word_breaks raw) @ '')''))
      else r_word_breaks_pattern raw)"

text \<open>
  The literals of an alternation, read back from its text: the text is cut at every bar
  that is not escaped, and the escapes are removed.
\<close>

definition on_first :: "('a list \<Rightarrow> 'a list) \<Rightarrow> 'a list list \<Rightarrow> 'a list list" where
  "on_first f xs = (case xs of [] \<Rightarrow> [f []] | a # as \<Rightarrow> f a # as)"

fun split_bars :: "string \<Rightarrow> string list" where
  "split_bars [] = [[]]"
| "split_bars [c] = (if c = CHR ''|'' then [[], []] else [[c]])"
| "split_bars (c # d # ds) =
     (if [c] = backslash then on_first (\<lambda>a. c # d # a) (split_bars ds)
      else if c = CHR ''|'' then [] # split_bars (d # ds)
      else on_first ((#) c) (split_bars (d # ds)))"

fun re_unescape :: "string \<Rightarrow> string" where
  "re_unescape [] = []"
| "re_unescape (c # cs) =
     (if [c] = backslash then (case cs of [] \<Rightarrow> [c] | d # ds \<Rightarrow> d # re_unescape ds)
      else c # re_unescape cs)"

definition pattern_literals :: "string \<Rightarrow> string list" where
  "pattern_literals p = map re_unescape (split_bars p)"

text \<open>
  The abbreviations: a pattern given as a string that does not end with \<open>$\<close> gets, when
  there are major breaks, the optional break and the whitespace appended, and its
  template the two groups.  \<open>abbreviation_regex\<close> is the pattern and the template before
  \<open>re.compile\<close>.
\<close>

definition abbreviation_regex ::
  "string list \<Rightarrow> re_match regex_type \<times> string \<Rightarrow> re_match regex_type \<times> string" where
  "abbreviation_regex major_breaks item =
     (case item of
        (Str pattern, template) \<Rightarrow>
          if \<not> endswith pattern ''$'' \<and> major_breaks \<noteq> [] then
            (Str (pattern @ ''(?P<break>'' @ alternation major_breaks
                    @ '')?(?P<whitespace>'' @ backslash @ ''s*)$''),
             template @ backslash @ ''g<break>'' @ backslash @ ''g<whitespace>'')
          else (Str pattern, template)
      | (Pat src m, template) \<Rightarrow> (Pat src m, template))"

text \<open>
  \<open>compiled_abbreviations[pattern] = template\<close>: a dictionary keyed by the compiled
  patterns, which are equal when their sources are; a key that is there already keeps
  its place and takes the new template.
\<close>

fun dict_set ::
  "(string \<times> 'm \<times> string) list \<Rightarrow> string \<Rightarrow> 'm \<Rightarrow> string \<Rightarrow> (string \<times> 'm \<times> string) list" where
  "dict_set [] src m template = [(src, m, template)]"
| "dict_set ((src', m', template') # rest) src m template =
     (if src' = src then (src', m', template) # rest
      else (src', m', template') # dict_set rest src m template)"

definition compiled_abbreviations ::
  "externals \<Rightarrow> raw_settings \<Rightarrow> (string \<times> re_match \<times> string) list" where
  "compiled_abbreviations x raw =
     fold (\<lambda>item acc.
             let (r, template) = abbreviation_regex (r_major_breaks raw) item
             in dict_set acc (regex_source r) (maybe_compile_regex (compile_match x) r) template)
          (r_abbreviations raw) []"

text \<open>
  The suffix of the pattern and of the template, and the entry of the dictionary that an
  item of the abbreviations gives: the source of the compiled pattern, its \<open>match\<close> and
  the template.
\<close>

definition break_suffix :: "string list \<Rightarrow> string" where
  "break_suffix mb = ''(?P<break>'' @ alternation mb @ '')?(?P<whitespace>'' @ backslash @ ''s*)$''"

definition template_suffix :: string where
  "template_suffix = backslash @ ''g<break>'' @ backslash @ ''g<whitespace>''"

definition compiled_item :: "externals \<Rightarrow> string list \<Rightarrow> re_match regex_type \<times> string \<Rightarrow> string \<times> re_match \<times> string" where
  "compiled_item x mb item =
     (let (r, template) = abbreviation_regex mb item
      in (regex_source r, maybe_compile_regex (compile_match x) r, template))"

definition split_dash :: "string \<Rightarrow> string \<times> string" where
  "split_dash s = (takeWhile (\<lambda>c. c \<noteq> CHR ''-'') s, drop 1 (dropWhile (\<lambda>c. c \<noteq> CHR ''-'') s))"

definition ascii_lower :: "char \<Rightarrow> char" where
  "ascii_lower c = (let n = of_char c :: nat in if 65 \<le> n \<and> n \<le> 90 then char_of (n + 32) else c)"

definition ascii_upper :: "char \<Rightarrow> char" where
  "ascii_upper c = (let n = of_char c :: nat in if 97 \<le> n \<and> n \<le> 122 then char_of (n - 32) else c)"

text \<open>The locale of babel: \<open>en-us\<close> becomes \<open>en_US\<close> (letters outside ASCII are left as they are).\<close>

definition post_babel_locale :: "raw_settings \<Rightarrow> string" where
  "post_babel_locale raw =
     (case r_babel_locale raw of
        Some l \<Rightarrow> l
      | None \<Rightarrow>
          if CHR ''-'' \<in> set (r_lang raw) then
            (let (a, b) = split_dash (r_lang raw)
             in map ascii_lower a @ ''_'' @ map ascii_upper b)
          else r_lang raw)"

definition post_currencies :: "externals \<Rightarrow> raw_settings \<Rightarrow> (string \<times> string) list" where
  "post_currencies x raw =
     (if r_currencies raw = [] then locale_currencies x (post_babel_locale raw)
      else r_currencies raw)"

text \<open>
  \<open>sorted(self.currencies, key=operator.length_hint, reverse=True)\<close>: the symbols by
  decreasing length, symbols of one length in the order of the dictionary.
\<close>

definition post_currency_symbols :: "externals \<Rightarrow> raw_settings \<Rightarrow> string list" where
  "post_currency_symbols x raw =
     (if r_currency_symbols raw = []
      then sort_key (\<lambda>s. - int (length s)) (map fst (post_currencies x raw))
      else r_currency_symbols raw)"

definition post_init :: "externals \<Rightarrow> raw_settings \<Rightarrow> settings" where
  "post_init x raw =
     \<lparr>s_lang = r_lang raw,
      split_pattern = maybe_compile_regex (compile_split x) (r_split_pattern raw),
      join_str = r_join_str raw,
      keep_whitespace = r_keep_whitespace raw,
      is_non_word = r_is_non_word raw,
      get_whitespace = r_get_whitespace raw,
      normalize_whitespace = r_normalize_whitespace raw,
      begin_punctuations_pattern =
        map_option (maybe_compile_regex (compile_split1 x)) (begin_punctuations_regex raw),
      end_punctuations_pattern =
        map_option (maybe_compile_regex (compile_split1 x)) (end_punctuations_regex raw),
      replacements =
        map (\<lambda>(r, template). (maybe_compile_regex (compile_subn x) r, template))
            (r_replacements raw),
      abbreviations = map snd (compiled_abbreviations x raw),
      spell_out_words = r_spell_out_words raw,
      major_breaks_pattern =
        map_option (maybe_compile_regex (compile_split x)) (major_breaks_regex raw),
      minor_breaks_pattern =
        map_option (maybe_compile_regex (compile_split x)) (minor_breaks_regex raw),
      word_breaks_pattern =
        map_option (maybe_compile_regex (compile_split x)) (word_breaks_regex raw),
      is_maybe_number = r_is_maybe_number raw,
      babel_locale = post_babel_locale raw,
      num2words_lang =
        (case r_num2words_lang raw of Some l \<Rightarrow> l | None \<Rightarrow> post_babel_locale raw),
      default_currency = r_default_currency raw,
      currencies = post_currencies x raw,
      currency_symbols = post_currency_symbols x raw,
      is_maybe_currency = r_is_maybe_currency raw,
      dateparser_lang =
        (case r_dateparser_lang raw of
           Some l \<Rightarrow> l
         | None \<Rightarrow> takeWhile (\<lambda>c. c \<noteq> CHR ''_'') (post_babel_locale raw)),
      is_maybe_date = r_is_maybe_date raw,
      default_date_format = r_default_date_format raw,
      get_parts_of_speech = r_get_parts_of_speech raw,
      is_initialism = r_is_initialism raw,
      split_initialism = r_split_initialism raw,
      lookup_phonemes = r_lookup_phonemes raw,
      guess_phonemes = r_guess_phonemes raw,
      pre_process_text = r_pre_process_text raw\<rparr>"

text \<open>
  The defaults of the arguments.  The default date format \<open>DATE_MDY_ORDINAL\<close> is declared
  in \<open>gruut.const\<close>, which is not among the sources: month, ordinal day, year.
\<close>

definition default_raw_settings :: "string \<Rightarrow> raw_settings" where
  "default_raw_settings l =
     \<lparr>r_lang = l,
      r_split_pattern = Pat (''('' @ backslash @ ''s+)'') split_ws,
      r_join_str = '' '',
      r_keep_whitespace = True,
      r_is_non_word = None,
      r_get_whitespace = default_get_whitespace,
      r_normalize_whitespace = default_normalize_whitespace,
      r_begin_punctuations = None,
      r_begin_punctuations_pattern = None,
      r_end_punctuations = None,
      r_end_punctuations_pattern = None,
      r_replacements = [],
      r_abbreviations = [],
      r_spell_out_words = (\<lambda>_. None),
      r_major_breaks = [],
      r_major_breaks_pattern = None,
      r_minor_breaks = [],
      r_minor_breaks_pattern = None,
      r_word_breaks = [],
      r_word_breaks_pattern = None,
      r_is_maybe_number = Some has_digit,
      r_babel_locale = None,
      r_num2words_lang = None,
      r_default_currency = ''USD'',
      r_currencies = [],
      r_currency_symbols = [],
      r_is_maybe_currency = Some has_digit,
      r_dateparser_lang = None,
      r_is_maybe_date = Some has_digit,
      r_default_date_format = ''moy'',
      r_get_parts_of_speech = None,
      r_is_initialism = None,
      r_split_initialism = None,
      r_lookup_phonemes = None,
      r_guess_phonemes = None,
      r_pre_process_text = None\<rparr>"

text \<open>
  The processor: \<open>get_settings\<close> looks the language up, falls back on the resolved
  language and at last on default-constructed settings, which it caches; the lookup is
  modelled by its result, a total function from language codes to settings.
\<close>

record processor =
  default_lang :: string
  get_settings :: "string \<Rightarrow> settings"
  ext :: externals

section \<open>The graph\<close>

text \<open>
  A \<open>networkx.DiGraph\<close> whose nodes are the numbers \<open>0..<len(graph)\<close>: the data of each
  node, and for each node its successors and its predecessors in the order in which the
  edges were added (the adjacency dictionaries keep insertion order).
\<close>

record graph =
  g_nodes :: "gnode list"
  g_succ :: "nat \<Rightarrow> nat list"
  g_pred :: "nat \<Rightarrow> nat list"

definition empty_graph :: graph where
  "empty_graph = \<lparr>g_nodes = [], g_succ = (\<lambda>_. []), g_pred = (\<lambda>_. [])\<rparr>"

definition len_graph :: "graph \<Rightarrow> nat" where
  "len_graph g = length (g_nodes g)"

text \<open>\<open>graph.add_node(len(graph), data=d)\<close>.\<close>

definition add_node :: "graph \<Rightarrow> gnode \<Rightarrow> graph" where
  "add_node g d = g\<lparr>g_nodes := g_nodes g @ [d]\<rparr>"

text \<open>\<open>graph.add_edge(u, v)\<close>: an edge that is there already keeps its place.\<close>

definition add_edge :: "graph \<Rightarrow> nat \<Rightarrow> nat \<Rightarrow> graph" where
  "add_edge g u v =
     (if v \<in> set (g_succ g u) then g
      else g\<lparr>g_succ := (g_succ g)(u := g_succ g u @ [v]),
              g_pred := (g_pred g)(v := g_pred g v @ [u])\<rparr>)"

definition remove_edge :: "graph \<Rightarrow> nat \<Rightarrow> nat \<Rightarrow> graph" where
  "remove_edge g u v =
     g\<lparr>g_succ := (g_succ g)(u := removeAll v (g_succ g u)),
        g_pred := (g_pred g)(v := removeAll u (g_pred g v))\<rparr>"

definition add_edges_from :: "graph \<Rightarrow> (nat \<times> nat) list \<Rightarrow> graph" where
  "add_edges_from g es = fold (\<lambda>(u, v) h. add_edge h u v) es g"

definition remove_edges_from :: "graph \<Rightarrow> (nat \<times> nat) list \<Rightarrow> graph" where
  "remove_edges_from g es = fold (\<lambda>(u, v) h. remove_edge h u v) es g"

definition out_edges :: "graph \<Rightarrow> nat \<Rightarrow> (nat \<times> nat) list" where
  "out_edges g u = map (Pair u) (g_succ g u)"

definition out_degree :: "graph \<Rightarrow> nat \<Rightarrow> nat" where
  "out_degree g u = length (g_succ g u)"

text \<open>\<open>graph.nodes[n][DATA_PROP]\<close>, for a node of the graph.\<close>

definition node_data :: "graph \<Rightarrow> nat \<Rightarrow> gnode" where
  "node_data g n = g_nodes g ! n"

definition base_of :: "gnode \<Rightarrow> node_base" where
  "base_of d =
     (case d of
        SpeakNode b \<Rightarrow> b
      | ParagraphNode b \<Rightarrow> b
      | SentenceNode b \<Rightarrow> b
      | WordNode w \<Rightarrow> node_base.truncate w
      | BreakWordNode w \<Rightarrow> node_base.truncate w
      | PunctuationWordNode w \<Rightarrow> node_base.truncate w
      | BreakNode w \<Rightarrow> node_base.truncate w
      | IgnoreNode b \<Rightarrow> b)"

definition with_node :: "nat \<Rightarrow> gnode \<Rightarrow> gnode" where
  "with_node n d =
     (case d of
        SpeakNode b \<Rightarrow> SpeakNode (b\<lparr>node := n\<rparr>)
      | ParagraphNode b \<Rightarrow> ParagraphNode (b\<lparr>node := n\<rparr>)
      | SentenceNode b \<Rightarrow> SentenceNode (b\<lparr>node := n\<rparr>)
      | WordNode w \<Rightarrow> WordNode (w\<lparr>node := n\<rparr>)
      | BreakWordNode w \<Rightarrow> BreakWordNode (w\<lparr>node := n\<rparr>)
      | PunctuationWordNode w \<Rightarrow> PunctuationWordNode (w\<lparr>node := n\<rparr>)
      | BreakNode w \<Rightarrow> BreakNode (w\<lparr>node := n\<rparr>)
      | IgnoreNode b \<Rightarrow> IgnoreNode (b\<lparr>node := n\<rparr>))"

fun is_sentence :: "gnode \<Rightarrow> bool" where
  "is_sentence (SentenceNode b) = True"
| "is_sentence _ = False"

fun is_paragraph :: "gnode \<Rightarrow> bool" where
  "is_paragraph (ParagraphNode b) = True"
| "is_paragraph _ = False"

text \<open>
  \<open>nx.dfs_preorder_nodes(graph, source)\<close>: depth first, the successors of a node in the
  order of its edges, every node once.  \<open>dfs g stack visited\<close> has the nodes still to
  visit on \<open>stack\<close> and the nodes visited, last first, in \<open>visited\<close>.  (Every edge of a
  networkx graph leads to a node of the graph.)
\<close>

function dfs :: "graph \<Rightarrow> nat list \<Rightarrow> nat list \<Rightarrow> nat list" where
  "dfs g [] visited = rev visited"
| "dfs g (n # stack) visited =
     (if n \<in> set visited \<or> length (g_nodes g) \<le> n then dfs g stack visited
      else dfs g (g_succ g n @ stack) (n # visited))"
  by pat_completeness auto

lemma unvisited_decreases:
  assumes "n \<notin> V" "n < N"
  shows "card ({..<N} - insert n V) < card ({..<N::nat} - V)"
proof -
  have "{..<N} - insert n V \<subset> {..<N} - V"
    using assms by auto
  then show ?thesis by (simp add: psubset_card_mono)
qed

termination dfs
proof (relation "inv_image (less_than <*lex*> less_than)
        (\<lambda>(g, stack, visited). (card ({..<length (g_nodes g)} - set visited), length stack))",
       goal_cases)
  case 1
  show ?case by auto
next
  case (2 g n stack visited)
  show ?case by simp
next
  case (3 g n stack visited)
  then have "n \<notin> set visited" "n < length (g_nodes g)" by auto
  from unvisited_decreases[OF this] show ?case by simp
qed

definition dfs_preorder_nodes :: "graph \<Rightarrow> nat \<Rightarrow> nat list" where
  "dfs_preorder_nodes g source = dfs g [source] []"

text \<open>
  Modelled from the spec: \<open>leaves\<close>, \<open>pipeline_split\<close> and \<open>pipeline_transform\<close> of
  \<open>gruut.utils\<close> are not among the sources.  "Leaves -- nodes with out-degree zero -- are
  the current working set of the pipeline", walked "in order" (the depth-first order of
  the flattening).  "A pass visits each current leaf and either mutates it in place
  (transform) or attaches new child leaves (split)"; the leaf set is a snapshot taken
  before the visits.  A new node is built as the callers of the passes build theirs:
  \<open>node_class(node=len(graph), **kwargs)\<close>, \<open>add_node\<close>, \<open>add_edge\<close> from the leaf.
\<close>

definition leaves :: "graph \<Rightarrow> nat \<Rightarrow> nat list" where
  "leaves g root_node = filter (\<lambda>n. out_degree g n = 0) (dfs_preorder_nodes g root_node)"

definition attach :: "nat \<Rightarrow> gnode \<Rightarrow> graph \<Rightarrow> graph" where
  "attach parent d g =
     (let new_node = with_node (len_graph g) d
      in add_edge (add_node g new_node) parent (len_graph g))"

definition pipeline_split ::
  "(gnode \<Rightarrow> py_exn + gnode list) \<Rightarrow> graph \<Rightarrow> nat \<Rightarrow> py_exn + graph" where
  "pipeline_split split_func g root_node =
     fold_exn (\<lambda>leaf h.
         bind_exn (split_func (node_data h leaf)) (\<lambda>new. Inr (fold (attach leaf) new h)))
       (leaves g root_node) g"

definition pipeline_transform ::
  "(graph \<Rightarrow> gnode \<Rightarrow> py_exn + graph) \<Rightarrow> graph \<Rightarrow> nat \<Rightarrow> py_exn + graph" where
  "pipeline_transform transform_func g root_node =
     fold_exn (\<lambda>leaf h. transform_func h (node_data h leaf)) (leaves g root_node) g"

text \<open>A transformation of a word, as a transformation of the graph that holds it.\<close>

definition on_word ::
  "(word_node \<Rightarrow> py_exn + word_node) \<Rightarrow> graph \<Rightarrow> gnode \<Rightarrow> py_exn + graph" where
  "on_word f g d =
     (case d of
        WordNode w \<Rightarrow>
          bind_exn (f w) (\<lambda>w'. Inr (g\<lparr>g_nodes := (g_nodes g)[node w := WordNode w']\<rparr>))
      | _ \<Rightarrow> Inr g)"

section \<open>Transformations\<close>

text \<open>
  A transformation mutates the word in place; the model returns the word after the call,
  or the exception that left the call.  The \<open>isinstance(node, WordNode)\<close> test is the
  case distinction of \<open>on_word\<close>.
\<close>

definition py_assert :: "bool \<Rightarrow> py_exn + unit" where
  "py_assert b = (if b then Inr () else Inl AssertionError)"

definition transform_number :: "processor \<Rightarrow> word_node \<Rightarrow> py_exn + word_node" where
  "transform_number self word =
     (if interpret_as word \<noteq> [] \<and> interpret_as word \<noteq> NUMBER then Inr word
      else
        let settings = get_settings self (lang word) in
        if babel_locale settings = [] then Inl AssertionError
        else
          (case parse_decimal (ext self) (wtext word) (babel_locale settings) of
             Some n \<Rightarrow> Inr (word\<lparr>interpret_as := NUMBER, number := Some n\<rparr>)
           | None \<Rightarrow> Inr word))"

text \<open>
  The loop of \<open>_transform_currency\<close> over \<open>currency_symbols\<close>: the first symbol that is a
  prefix of the text and whose rest parses wins.
\<close>

fun try_currency_symbols ::
  "(string \<Rightarrow> decimal option) \<Rightarrow> string \<Rightarrow> string list \<Rightarrow> (string \<times> decimal) option" where
  "try_currency_symbols parse txt [] = None"
| "try_currency_symbols parse txt (csym # rest) =
     (if startswith txt csym then
        (case parse (drop (length csym) txt) of
           Some n \<Rightarrow> Some (csym, n)
         | None \<Rightarrow> try_currency_symbols parse txt rest)
      else try_currency_symbols parse txt rest)"

definition transform_currency :: "processor \<Rightarrow> word_node \<Rightarrow> py_exn + word_node" where
  "transform_currency self word =
     (if interpret_as word \<noteq> [] \<and> interpret_as word \<noteq> CURRENCY then Inr word
      else
        let settings = get_settings self (lang word) in
        if (case is_maybe_currency settings of Some f \<Rightarrow> \<not> f (wtext word) | None \<Rightarrow> False)
        then Inr word
        else if babel_locale settings = [] then Inl AssertionError
        else
          let parse = (\<lambda>s. parse_decimal (ext self) s (babel_locale settings)) in
          (case try_currency_symbols parse (wtext word) (currency_symbols settings) of
             Some (csym, n) \<Rightarrow>
               Inr (word\<lparr>interpret_as := CURRENCY, currency_symbol := Some csym,
                          number := Some n\<rparr>)
           | None \<Rightarrow>
               if interpret_as word = CURRENCY \<and> default_currency settings \<noteq> [] then
                 (case parse (wtext word) of
                    Some n \<Rightarrow>
                      Inr (word\<lparr>interpret_as := CURRENCY,
                                 currency_name := Some (default_currency settings),
                                 number := Some n\<rparr>)
                  | None \<Rightarrow> Inr word)
               else Inr word))"

definition transform_date :: "processor \<Rightarrow> word_node \<Rightarrow> py_exn + word_node" where
  "transform_date self word =
     (if interpret_as word \<noteq> [] \<and> interpret_as word \<noteq> DATE then Inr word
      else
        let settings = get_settings self (lang word) in
        if (case is_maybe_date settings of Some f \<Rightarrow> \<not> f (wtext word) | None \<Rightarrow> False)
        then Inr word
        else if dateparser_lang settings = [] then Inl AssertionError
        else
          (case dateparser_parse (ext self) (wtext word) True (dateparser_lang settings) of
             Some d \<Rightarrow> Inr (word\<lparr>interpret_as := DATE, date := Some d\<rparr>)
           | None \<Rightarrow>
               if interpret_as word = DATE then
                 (case dateparser_parse (ext self) (wtext word) False (dateparser_lang settings) of
                    Some d \<Rightarrow> Inr (word\<lparr>date := Some d\<rparr>)
                  | None \<Rightarrow> Inr word)
               else Inr word))"

section \<open>Verbalization\<close>

text \<open>
  \<open>WordNode(text=..., text_with_ws=..., implicit=True, lang=..., role=...)\<close>, the other
  fields at their defaults; the number of the node is given when the node joins the graph.
\<close>

definition plain_word :: "string \<Rightarrow> string \<Rightarrow> string \<Rightarrow> string \<Rightarrow> word_node" where
  "plain_word txt tws lng rl =
     \<lparr>node = 0, implicit = True, lang = lng, voice = [],
       wtext = txt, text_with_ws = tws, interpret_as = [], format = [],
       number = None, date = None, currency_symbol = None, currency_name = None,
       role = rl, pos = None, phonemes = None\<rparr>"

definition mk_word :: "string \<Rightarrow> string \<Rightarrow> string \<Rightarrow> string \<Rightarrow> gnode" where
  "mk_word txt tws lng rl = WordNode (plain_word txt tws lng rl)"

text \<open>\<open>enumerate\<close>.\<close>

definition enumerate_list :: "'a list \<Rightarrow> (nat \<times> 'a) list" where
  "enumerate_list xs = zip [0..<length xs] xs"

text \<open>
  \<open>str.isalpha\<close>, and the characters that \<open>\w\<close> matches in a \<open>str\<close> pattern (those for
  which \<open>str.isalnum\<close> holds, and the underscore), for the code points below 256.
\<close>

definition is_alpha :: "char \<Rightarrow> bool" where
  "is_alpha c =
     (let n = of_char c :: nat
      in (65 \<le> n \<and> n \<le> 90) \<or> (97 \<le> n \<and> n \<le> 122) \<or> n = 170 \<or> n = 181 \<or> n = 186
         \<or> (192 \<le> n \<and> n \<le> 214) \<or> (216 \<le> n \<and> n \<le> 246) \<or> 248 \<le> n)"

definition is_word_char :: "char \<Rightarrow> bool" where
  "is_word_char c =
     (let n = of_char c :: nat
      in is_alpha c \<or> is_digit c \<or> c = CHR ''_''
         \<or> n = 178 \<or> n = 179 \<or> n = 185 \<or> (188 \<le> n \<and> n \<le> 190))"

text \<open>\<open>re.sub(r"\W", join_str, s)\<close>.\<close>

definition sub_non_word :: "string \<Rightarrow> string \<Rightarrow> string" where
  "sub_non_word repl s = concat (map (\<lambda>c. if is_word_char c then [c] else repl) s)"

text \<open>
  The loop that ends each of the three verbalizers: the words of the verbalized string
  become children of the word, the whitespace around the word kept on the first and the
  last of them.  (\<open>_verbalize_date\<close> alone skips a word whose text came out empty.)
\<close>

definition verbalized_text ::
  "settings \<Rightarrow> string \<times> string \<Rightarrow> nat \<Rightarrow> nat \<Rightarrow> string \<times> string option \<Rightarrow> string" where
  "verbalized_text settings ws last_group_idx group_idx grp =
     (let (first_ws, last_ws) = ws; (part_str, sep_str) = grp
      in if keep_whitespace settings then
           (if group_idx = 0 then first_ws @ part_str else part_str)
           @ (if group_idx = last_group_idx then last_ws else or_empty sep_str)
         else part_str)"

definition attach_verbalized :: "settings \<Rightarrow> word_node \<Rightarrow> bool \<Rightarrow> string \<Rightarrow> graph \<Rightarrow> graph" where
  "attach_verbalized settings word skip_empty s g =
     (let groups = grouper (split_pattern settings s);
          ws = get_whitespace settings (text_with_ws word);
          last_group_idx = length groups - 1
      in fold (\<lambda>(group_idx, grp) h.
                 if fst grp = [] then h
                 else
                   let t = verbalized_text settings ws last_group_idx group_idx grp
                   in if skip_empty \<and> t = [] then h
                      else attach (node word) (mk_word (strip t) t (lang word) ROLE_DEFAULT) h)
              (enumerate_list groups) g)"

text \<open>\<open>(decimal_num % 1) != 0\<close>.\<close>

definition has_frac :: "decimal \<Rightarrow> py_exn + bool" where
  "has_frac d =
     (case d of
        Finite r \<Rightarrow> Inr (r \<noteq> of_int \<lfloor>r\<rfloor>)
      | NaN \<Rightarrow> Inr True
      | _ \<Rightarrow> Inl InvalidOperation)"

text \<open>
  \<open>[Decimal(d) for d in str(number.to_integral_value())]\<close>: the digits of the number
  rounded to an integer (half to even); the sign of a negative number, and the letters
  of a special value, are no decimals.
\<close>

definition round_half_even :: "rat \<Rightarrow> int" where
  "round_half_even r =
     (let f = \<lfloor>r\<rfloor>; d = r - of_int f
      in if d < 1 / 2 then f else if 1 / 2 < d then f + 1 else if even f then f else f + 1)"

function nat_digits :: "nat \<Rightarrow> nat list" where
  "nat_digits n = (if n < 10 then [n] else nat_digits (n div 10) @ [n mod 10])"
  by pat_completeness auto

termination nat_digits
  by (relation "measure id") auto

definition digit_decimals :: "decimal \<Rightarrow> py_exn + decimal list" where
  "digit_decimals d =
     (case d of
        Finite r \<Rightarrow>
          if round_half_even r < 0 then Inl InvalidOperation
          else Inr (map (\<lambda>k. Finite (of_nat k)) (nat_digits (nat (round_half_even r))))
      | _ \<Rightarrow> Inl InvalidOperation)"

text \<open>
  The \<open>to\<close> argument that \<open>_verbalize_number\<close> gives \<open>num2words\<close> for a format, and the
  body of its loop over the numbers to verbalize.
\<close>

definition number_to :: "string \<Rightarrow> string option" where
  "number_to fmt =
     (if fmt = NUMBER_CARDINAL then Some ''cardinal''
      else if fmt = NUMBER_ORDINAL then Some ''ordinal''
      else if fmt = NUMBER_YEAR then Some ''year''
      else if fmt = NUMBER_DIGITS then Some ''cardinal''
      else None)"

definition verbalize_decimal ::
  "processor \<Rightarrow> settings \<Rightarrow> word_node \<Rightarrow> decimal \<Rightarrow> graph \<Rightarrow> py_exn + graph" where
  "verbalize_decimal self settings word decimal_num h =
     bind_exn (has_frac decimal_num) (\<lambda>num_has_frac.
     bind_exn (num2words (ext self) decimal_num num_has_frac (num2words_lang settings)
                 (number_to (format word)) None) (\<lambda>num_str.
     Inr (attach_verbalized settings word False
            (strip (sub_non_word (join_str settings) num_str)) h)))"

definition verbalize_number :: "processor \<Rightarrow> graph \<Rightarrow> gnode \<Rightarrow> py_exn + graph" where
  "verbalize_number self g d =
     (case d of
        WordNode word \<Rightarrow>
          if interpret_as word \<noteq> NUMBER \<or> number word = None then Inr g
          else
            let settings = get_settings self (lang word) in
            if (case is_maybe_number settings of Some f \<Rightarrow> \<not> f (wtext word) | None \<Rightarrow> False)
            then Inr g
            else if num2words_lang settings = [] then Inl AssertionError
            else
              bind_exn
                (if format word = NUMBER_DIGITS then digit_decimals (the (number word))
                 else Inr [the (number word)])
                (\<lambda>decimal_nums. fold_exn (verbalize_decimal self settings word) decimal_nums g)
      | _ \<Rightarrow> Inr g)"

text \<open>
  \<open>date_format_str.format(M=..., D=..., O=..., Y=...)\<close> with \<open>date_format_str\<close> the
  fields \<open>{c}\<close> of the letters of the format, joined by \<open>join_str\<close>: a letter other than
  the four raises.
\<close>

fun format_fields :: "(char \<Rightarrow> string option) \<Rightarrow> string \<Rightarrow> py_exn + string list" where
  "format_fields env [] = Inr []"
| "format_fields env (c # cs) =
     (case env c of
        None \<Rightarrow> Inl KeyError
      | Some v \<Rightarrow> bind_exn (format_fields env cs) (\<lambda>vs. Inr (v # vs)))"

definition verbalize_date :: "processor \<Rightarrow> graph \<Rightarrow> gnode \<Rightarrow> py_exn + graph" where
  "verbalize_date self g d =
     (case d of
        WordNode word \<Rightarrow>
          if interpret_as word \<noteq> DATE \<or> date word = None then Inr g
          else
            let settings = get_settings self (lang word) in
            if babel_locale settings = [] \<or> num2words_lang settings = [] then Inl AssertionError
            else
              let dt = the (date word);
                  date_format = map ascii_upper
                    (strip (if format word \<noteq> [] then format word
                            else default_date_format settings));
                  month_str = (if CHR ''M'' \<in> set date_format
                               then format_month (ext self) dt (babel_locale settings) else []);
                  n2w = (\<lambda>k to. num2words (ext self) (Finite (of_int k)) False
                                  (num2words_lang settings) (Some to) None)
              in bind_exn (if CHR ''D'' \<in> set date_format
                           then n2w (int (dt_day dt)) ''cardinal'' else Inr []) (\<lambda>day_card_str.
                 bind_exn (if CHR ''O'' \<in> set date_format
                           then n2w (int (dt_day dt)) ''ordinal'' else Inr []) (\<lambda>day_ord_str.
                 bind_exn (if CHR ''Y'' \<in> set date_format
                           then n2w (dt_year dt) ''year'' else Inr []) (\<lambda>year_str.
                 bind_exn (format_fields
                             (\<lambda>c. if c = CHR ''M'' then Some month_str
                                  else if c = CHR ''D'' then Some day_card_str
                                  else if c = CHR ''O'' then Some day_ord_str
                                  else if c = CHR ''Y'' then Some year_str else None)
                             date_format) (\<lambda>fields.
                 Inr (attach_verbalized settings word True
                        (join (join_str settings) fields) g)))))
      | _ \<Rightarrow> Inr g)"

text \<open>
  \<open>_verbalize_currency\<close> first gives the word its \<open>currency_name\<close>; an exception of
  \<open>num2words\<close> is logged and ends the call.  \<open>currency_words\<close> is the verbalized string
  after the separator has been dealt with.
\<close>

definition currency_words :: "bool \<Rightarrow> string \<Rightarrow> string" where
  "currency_words num_has_frac num_str =
     (if num_has_frac then filter (\<lambda>c. c \<noteq> CHR ''|'') num_str
      else takeWhile (\<lambda>c. c \<noteq> CHR ''|'') num_str)"

definition name_currency :: "settings \<Rightarrow> word_node \<Rightarrow> word_node" where
  "name_currency settings word =
     (if currency_name word = None \<or> currency_name word = Some [] then
        word\<lparr>currency_name :=
          Some (if currencies settings \<noteq> [] then
                  (case map_of (currencies settings) (or_empty (currency_symbol word)) of
                     Some cn \<Rightarrow> cn
                   | None \<Rightarrow> default_currency settings)
                else default_currency settings)\<rparr>
      else word)"

definition verbalize_currency :: "processor \<Rightarrow> graph \<Rightarrow> gnode \<Rightarrow> py_exn + graph" where
  "verbalize_currency self g d =
     (case d of
        WordNode word \<Rightarrow>
          if interpret_as word \<noteq> CURRENCY
             \<or> (currency_symbol word = None \<and> currency_name word = None)
             \<or> number word = None
          then Inr g
          else
            let settings = get_settings self (lang word) in
            if num2words_lang settings = [] then Inl AssertionError
            else
              bind_exn (has_frac (the (number word))) (\<lambda>num_has_frac.
                let word' = name_currency settings word;
                    g' = g\<lparr>g_nodes := (g_nodes g)[node word := WordNode word']\<rparr>
                in (case num2words (ext self) (the (number word)) True
                           (num2words_lang settings) (Some ''currency'') (currency_name word') of
                      Inl Diverges \<Rightarrow> Inl Diverges
                    | Inl e \<Rightarrow> Inr g'
                    | Inr num_str \<Rightarrow>
                        Inr (attach_verbalized settings word' False
                               (strip (sub_non_word (join_str settings)
                                         (currency_words num_has_frac num_str))) g')))
      | _ \<Rightarrow> Inr g)"

section \<open>Splits\<close>

text \<open>
  A split is a generator of \<open>(node_class, kwargs)\<close> pairs; the model returns the list of
  the nodes it yields, which \<open>pipeline_split\<close> numbers and attaches.
\<close>

definition mk_punctuation :: "string \<Rightarrow> string \<Rightarrow> string \<Rightarrow> gnode" where
  "mk_punctuation txt tws lng =
     PunctuationWordNode \<lparr>node = 0, implicit = True, lang = lng, voice = [],
       pw_text = txt, pw_text_with_ws = tws\<rparr>"

definition mk_break_word :: "break_type \<Rightarrow> string \<Rightarrow> string \<Rightarrow> string \<Rightarrow> gnode" where
  "mk_break_word bt txt tws lng =
     BreakWordNode \<lparr>node = 0, implicit = True, lang = lng, voice = [],
       bw_break_type = bt, bw_text = txt, bw_text_with_ws = tws\<rparr>"

text \<open>The lexicon says the word is known: \<open>lookup_phonemes(word.text)\<close> is not empty.\<close>

definition in_lexicon :: "settings \<Rightarrow> string \<Rightarrow> py_exn + bool" where
  "in_lexicon settings txt =
     (case lookup_phonemes settings of
        None \<Rightarrow> Inr False
      | Some lookup \<Rightarrow>
          bind_exn (lookup txt None)
            (\<lambda>r. Inr (case r of None \<Rightarrow> False | Some ps \<Rightarrow> ps \<noteq> [])))"

text \<open>
  The new text of a replacement or an abbreviation is split again into words, each with
  the separator after it.
\<close>

definition tokenize_new_text :: "settings \<Rightarrow> string \<Rightarrow> string \<Rightarrow> gnode list" where
  "tokenize_new_text settings lng new_text =
     concat (map (\<lambda>(part_str, sep_str).
                    let part = (if keep_whitespace settings then part_str @ or_empty sep_str
                                else part_str)
                    in if strip part = [] then []
                       else [mk_word (normalize_whitespace settings part) part lng ROLE_DEFAULT])
                 (grouper (split_pattern settings new_text)))"

definition apply_replacements :: "(re_subn \<times> string) list \<Rightarrow> string \<Rightarrow> string \<times> bool" where
  "apply_replacements rs txt =
     fold (\<lambda>(pattern, template) (new_text, matched).
             let (t, num_subs) = pattern template new_text
             in (t, matched \<or> 0 < num_subs))
          rs (txt, False)"

definition split_replacements :: "processor \<Rightarrow> gnode \<Rightarrow> py_exn + gnode list" where
  "split_replacements self d =
     (case d of
        WordNode word \<Rightarrow>
          if interpret_as word \<noteq> [] then Inr []
          else
            let settings = get_settings self (lang word) in
            if replacements settings = [] then Inr []
            else
              let (new_text, matched) =
                    apply_replacements (replacements settings) (text_with_ws word)
              in if matched then Inr (tokenize_new_text settings (lang word) new_text)
                 else Inr []
      | _ \<Rightarrow> Inr [])"

text \<open>
  The loop of \<open>_split_abbreviations\<close>: the patterns in the order of the dictionary, the
  first whose \<open>match\<close> succeeds gives the new text.
\<close>

fun first_match :: "(re_match \<times> string) list \<Rightarrow> string \<Rightarrow> string option" where
  "first_match [] txt = None"
| "first_match ((pattern, template) # rest) txt =
     (case pattern txt of
        Some expand \<Rightarrow> Some (expand template)
      | None \<Rightarrow> first_match rest txt)"

definition split_abbreviations :: "processor \<Rightarrow> gnode \<Rightarrow> py_exn + gnode list" where
  "split_abbreviations self d =
     (case d of
        WordNode word \<Rightarrow>
          if interpret_as word \<noteq> [] then Inr []
          else
            let settings = get_settings self (lang word) in
            if abbreviations settings = [] then Inr []
            else
              (case first_match (abbreviations settings) (text_with_ws word) of
                 Some new_text \<Rightarrow> Inr (tokenize_new_text settings (lang word) new_text)
               | None \<Rightarrow> Inr [])
      | _ \<Rightarrow> Inr [])"

text \<open>
  The two loops of \<open>_split_punctuations\<close>.  \<open>nonempty_parts\<close> is
  \<open>list(filter(None, pattern.split(word_text, maxsplit=1)))\<close>.  The first loop yields the
  punctuation at the beginning, the whitespace before the word on the first; the second
  collects the punctuation at the end.  A loop that does not end gives \<open>None\<close>.
\<close>

definition nonempty_parts :: "re_split \<Rightarrow> string \<Rightarrow> string list" where
  "nonempty_parts split s = filter (\<lambda>part. part \<noteq> []) (split s)"

definition begin_loop ::
  "re_split \<Rightarrow> string \<Rightarrow> string \<Rightarrow> (string list \<times> string) option" where
  "begin_loop split first_ws word_text =
     map_option (\<lambda>(parts, word_text', first_word, out). (out, word_text'))
       (while_option
          (\<lambda>(parts, word_text', first_word, out). word_text' \<noteq> [] \<and> length parts = 2)
          (\<lambda>(parts, word_text', first_word, out).
             let punct_text = (if first_word then first_ws @ parts ! 0 else parts ! 0)
             in (nonempty_parts split (parts ! 1), parts ! 1, False, out @ [punct_text]))
          (nonempty_parts split word_text, word_text, True, []))"

definition end_loop :: "re_split \<Rightarrow> string \<Rightarrow> (string list \<times> string) option" where
  "end_loop split word_text =
     map_option (\<lambda>(parts, word_text', end_punctuations). (end_punctuations, word_text'))
       (while_option
          (\<lambda>(parts, word_text', end_punctuations). word_text' \<noteq> [] \<and> length parts = 2)
          (\<lambda>(parts, word_text', end_punctuations).
             (nonempty_parts split (parts ! 0), parts ! 0, end_punctuations @ [parts ! 1]))
          (nonempty_parts split word_text, word_text, []))"

definition split_punctuations :: "processor \<Rightarrow> gnode \<Rightarrow> py_exn + gnode list" where
  "split_punctuations self d =
     (case d of
        WordNode word \<Rightarrow>
          if interpret_as word \<noteq> [] then Inr []
          else
            let settings = get_settings self (lang word) in
            if begin_punctuations_pattern settings = None
               \<and> end_punctuations_pattern settings = None
            then Inr []
            else
              let (first_ws, last_ws) = get_whitespace settings (text_with_ws word) in
              (case (case begin_punctuations_pattern settings of
                       None \<Rightarrow> Some ([], wtext word)
                     | Some pattern \<Rightarrow> begin_loop pattern first_ws (wtext word)) of
                 None \<Rightarrow> Inl Diverges
               | Some (begin_puncts, word_text1) \<Rightarrow>
                   (case (case end_punctuations_pattern settings of
                            None \<Rightarrow> Some ([], word_text1)
                          | Some pattern \<Rightarrow> end_loop pattern word_text1) of
                      None \<Rightarrow> Inl Diverges
                    | Some (end_punctuations, word_text2) \<Rightarrow>
                        if begin_puncts = [] \<and> end_punctuations = [] then Inr []
                        else
                          let word_text = (if keep_whitespace settings \<and> end_punctuations = []
                                           then word_text2 @ last_ws else word_text2);
                              last_punct_idx = length end_punctuations - 1
                          in Inr
                               (map (\<lambda>punct_text.
                                       mk_punctuation (strip punct_text) punct_text (lang word))
                                    begin_puncts
                                @ (if word_text \<noteq> []
                                   then [mk_word (strip word_text) word_text (lang word)
                                           ROLE_DEFAULT]
                                   else [])
                                @ map (\<lambda>(punct_idx, punct_text).
                                         let t = (if keep_whitespace settings
                                                     \<and> punct_idx = last_punct_idx
                                                  then punct_text @ last_ws else punct_text)
                                         in mk_punctuation (strip t) t (lang word))
                                      (enumerate_list (rev end_punctuations)))))
      | _ \<Rightarrow> Inr [])"

definition split_major_breaks :: "processor \<Rightarrow> gnode \<Rightarrow> py_exn + gnode list" where
  "split_major_breaks self d =
     (case d of
        WordNode word \<Rightarrow>
          if interpret_as word \<noteq> [] then Inr []
          else
            let settings = get_settings self (lang word) in
            (case major_breaks_pattern settings of
               None \<Rightarrow> Inr []
             | Some pattern \<Rightarrow>
                 let parts = pattern (text_with_ws word) in
                 if length parts < 2 then Inr []
                 else
                   let word_part = parts ! 0; break_part = parts ! 1 in
                   if strip word_part \<noteq> [] then
                     Inr [mk_word (strip word_part) word_part (lang word) ROLE_DEFAULT,
                          mk_break_word MAJOR (strip break_part) break_part (lang word)]
                   else
                     Inr [mk_break_word MAJOR (strip (word_part @ break_part))
                            (word_part @ break_part) (lang word)])
      | _ \<Rightarrow> Inr [])"

definition split_minor_breaks :: "processor \<Rightarrow> gnode \<Rightarrow> py_exn + gnode list" where
  "split_minor_breaks self d =
     (case d of
        WordNode word \<Rightarrow>
          if interpret_as word \<noteq> [] then Inr []
          else
            let settings = get_settings self (lang word) in
            (case minor_breaks_pattern settings of
               None \<Rightarrow> Inr []
             | Some pattern \<Rightarrow>
                 let parts = pattern (text_with_ws word) in
                 if length parts < 2 then Inr []
                 else
                   Inr [mk_word (strip (parts ! 0)) (parts ! 0) (lang word) ROLE_DEFAULT,
                        mk_break_word MINOR (strip (parts ! 1)) (parts ! 1) (lang word)])
      | _ \<Rightarrow> Inr [])"

text \<open>
  The text of the part of index \<open>part_idx\<close> of a word that is cut into parts: the
  whitespace before the word on the first part, the whitespace after it on the last, and
  \<open>join_str\<close> after every other part.
\<close>

definition part_text ::
  "settings \<Rightarrow> string \<times> string \<Rightarrow> nat \<Rightarrow> nat \<Rightarrow> string \<Rightarrow> string" where
  "part_text settings ws last_part_idx part_idx part =
     (let (first_ws, last_ws) = ws
      in if keep_whitespace settings then
           (if part_idx = 0 then first_ws @ part else part)
           @ (if part_idx = last_part_idx then last_ws else join_str settings)
         else part)"

text \<open>\<open>_split_initialism\<close> (the setting \<open>split_initialism\<close> has the name already).\<close>

definition split_initialism_pass :: "processor \<Rightarrow> gnode \<Rightarrow> py_exn + gnode list" where
  "split_initialism_pass self d =
     (case d of
        WordNode word \<Rightarrow>
          if interpret_as word \<noteq> [] then Inr []
          else
            let settings = get_settings self (lang word) in
            (case (is_initialism settings, split_initialism settings) of
               (Some is_init, Some split_init) \<Rightarrow>
                 bind_exn (in_lexicon settings (wtext word)) (\<lambda>known.
                   if known then Inr []
                   else if \<not> is_init (wtext word) then Inr []
                   else
                     let parts = split_init (wtext word);
                         ws = get_whitespace settings (text_with_ws word);
                         last_part_idx = length parts - 1
                     in Inr (concat (map (\<lambda>(part_idx, part).
                                 if part = [] then []
                                 else
                                   let t = part_text settings ws last_part_idx part_idx part
                                   in [mk_word (strip t) t (lang word) ROLE_LETTER])
                               (enumerate_list parts))))
             | _ \<Rightarrow> Inr [])
      | _ \<Rightarrow> Inr [])"

definition break_words :: "processor \<Rightarrow> gnode \<Rightarrow> py_exn + gnode list" where
  "break_words self d =
     (case d of
        WordNode word \<Rightarrow>
          if interpret_as word \<noteq> [] then Inr []
          else if \<not> implicit word then Inr []
          else
            let settings = get_settings self (lang word) in
            (case word_breaks_pattern settings of
               None \<Rightarrow> Inr []
             | Some pattern \<Rightarrow>
                 bind_exn (in_lexicon settings (wtext word)) (\<lambda>known.
                   if known then Inr []
                   else
                     let parts = pattern (wtext word) in
                     if length parts < 2 then Inr []
                     else
                       let ws = get_whitespace settings (text_with_ws word);
                           last_part_idx = length parts - 1
                       in Inr (map (\<lambda>(part_idx, part).
                                 let t = part_text settings ws last_part_idx part_idx part
                                 in mk_word (strip t) t (lang word) ROLE_DEFAULT)
                               (enumerate_list parts))))
      | _ \<Rightarrow> Inr [])"

definition split_spell_out :: "processor \<Rightarrow> gnode \<Rightarrow> py_exn + gnode list" where
  "split_spell_out self d =
     (case d of
        WordNode word \<Rightarrow>
          if interpret_as word \<noteq> SPELL_OUT then Inr []
          else
            let settings = get_settings self (lang word);
                ws = get_whitespace settings (text_with_ws word);
                last_char_idx = length (wtext word) - 1
            in Inr (concat (map (\<lambda>(i, c).
                        let (word_text, rl) =
                              (case spell_out_words settings c of
                                 Some spoken \<Rightarrow> (spoken, ROLE_DEFAULT)
                               | None \<Rightarrow> if is_alpha c then ([c], ROLE_LETTER)
                                         else ([c], ROLE_DEFAULT))
                        in if word_text = [] then []
                           else
                             let t = part_text settings ws last_char_idx i word_text
                             in [mk_word (strip t) t (lang word) rl])
                      (enumerate_list (wtext word))))
      | _ \<Rightarrow> Inr [])"

text \<open>\<open>IgnoreNode(node=len(graph))\<close>, the other fields at their defaults.\<close>

definition mk_ignore :: gnode where
  "mk_ignore = IgnoreNode \<lparr>node = 0, implicit = False, lang = [], voice = []\<rparr>"

definition split_ignore_non_words :: "processor \<Rightarrow> gnode \<Rightarrow> py_exn + gnode list" where
  "split_ignore_non_words self d =
     (case d of
        WordNode word \<Rightarrow>
          if interpret_as word \<noteq> [] then Inr []
          else
            let settings = get_settings self (lang word) in
            (case is_non_word settings of
               None \<Rightarrow> Inr []
             | Some f \<Rightarrow> if f (wtext word) then Inr [mk_ignore] else Inr [])
      | _ \<Rightarrow> Inr [])"

section \<open>From the document to the tree\<close>

text \<open>
  The events of the reader: the start of an element (with the \<open>is_last\<close> entry of its
  metadata), a chunk of text, the end of an element.
\<close>

datatype event = StartElement xml bool | TextChunk string | EndElement xml

text \<open>
  Modelled from the spec: \<open>text_and_elements\<close> of \<open>gruut.utils\<close> is not among the sources.
  "A depth-first traversal yielding, for each element, in order: the start event
  (element + optional metadata dict), the stripped leading text of the element,
  recursive events for each child, the stripped tail text of the element, and an end
  event."  The metadata marks the last child of an element.
\<close>

fun text_and_elements :: "bool \<Rightarrow> xml \<Rightarrow> event list"
  and children_events :: "xml list \<Rightarrow> event list" where
  "text_and_elements is_last (Element t a txt cs after) =
     StartElement (Element t a txt cs after) is_last
     # (if strip txt \<noteq> [] then [TextChunk (strip txt)] else [])
     @ children_events cs
     @ (if strip after \<noteq> [] then [TextChunk (strip after)] else [])
     @ [EndElement (Element t a txt cs after)]"
| "children_events [] = []"
| "children_events (c # cs) = text_and_elements (cs = []) c @ children_events cs"

definition attrib_no_namespace :: "xml \<Rightarrow> string \<Rightarrow> string option" where
  "attrib_no_namespace elem name = map_of (attrib elem) name"

text \<open>The scope of a new node: \<open>scope_kwargs\<close>.\<close>

record tree_state =
  t_graph :: graph
  last_paragraph :: "nat option"
  last_sentence :: "nat option"
  last_speak :: "nat option"
  t_root :: "nat option"
  voice_stack :: "string list"
  say_as_stack :: "(string \<times> string) list"
  lang_stack :: "(string \<times> string) list"
  current_lang :: string
  in_word :: bool
  is_last_word :: bool
  word_role :: "string option"
  last_alias :: "string option"
  skip_elements :: bool

definition initial_state :: "processor \<Rightarrow> tree_state" where
  "initial_state self =
     \<lparr>t_graph = empty_graph, last_paragraph = None, last_sentence = None, last_speak = None,
      t_root = None, voice_stack = [], say_as_stack = [], lang_stack = [],
      current_lang = default_lang self, in_word = False, is_last_word = False,
      word_role = None, last_alias = None, skip_elements = False\<rparr>"

definition scope_voice :: "tree_state \<Rightarrow> string" where
  "scope_voice st = (if voice_stack st \<noteq> [] then last (voice_stack st) else [])"

definition scope_base :: "tree_state \<Rightarrow> bool \<Rightarrow> node_base" where
  "scope_base st impl =
     \<lparr>node = len_graph (t_graph st), implicit = impl, lang = current_lang st,
      voice = scope_voice st\<rparr>"

text \<open>
  \<open>WordNode(node=len(graph), text=..., text_with_ws=..., implicit=..., **scope_kwargs)\<close>.
\<close>

definition scope_word :: "tree_state \<Rightarrow> graph \<Rightarrow> bool \<Rightarrow> string \<Rightarrow> string \<Rightarrow> gnode" where
  "scope_word st g impl txt tws =
     WordNode \<lparr>node = len_graph g, implicit = impl, lang = current_lang st,
       voice = scope_voice st, wtext = txt, text_with_ws = tws,
       interpret_as = (if say_as_stack st \<noteq> [] then fst (last (say_as_stack st)) else []),
       format = (if say_as_stack st \<noteq> [] then snd (last (say_as_stack st)) else []),
       number = None, date = None, currency_symbol = None, currency_name = None,
       role = (case word_role st of Some r \<Rightarrow> r | None \<Rightarrow> ROLE_DEFAULT),
       pos = None, phonemes = None\<rparr>"

text \<open>
  \<open>_pipeline_tokenize\<close>: the text is split into words; each word keeps the separator
  after it, and the first one the whitespace before it.
\<close>

definition token_texts :: "settings \<Rightarrow> string \<Rightarrow> string list" where
  "token_texts settings txt0 =
     (let txt = (case pre_process_text settings of Some f \<Rightarrow> f txt0 | None \<Rightarrow> txt0);
          groups = filter (\<lambda>g. fst g \<noteq> []) (grouper (split_pattern settings txt));
          (first_ws, last_ws) = get_whitespace settings txt
      in map (\<lambda>(group_idx, (part_str, sep_str)).
                if keep_whitespace settings then
                  (if group_idx = 0 then first_ws @ part_str else part_str) @ or_empty sep_str
                else part_str)
             (enumerate_list groups))"

definition pipeline_tokenize ::
  "processor \<Rightarrow> tree_state \<Rightarrow> graph \<Rightarrow> nat \<Rightarrow> string \<Rightarrow> graph" where
  "pipeline_tokenize self st g parent_node txt =
     fold (\<lambda>word_text h.
             add_edge (add_node h (scope_word st h True (strip word_text) word_text))
               parent_node (len_graph h))
          (token_texts (get_settings self (current_lang st)) txt) g"

text \<open>The implicit \<open>speak\<close>, \<open>p\<close> and \<open>s\<close> that a node may need above it.\<close>

definition ensure_speak :: "tree_state \<Rightarrow> tree_state" where
  "ensure_speak st =
     (case last_speak st of
        Some _ \<Rightarrow> st
      | None \<Rightarrow>
          let n = len_graph (t_graph st)
          in st\<lparr>t_graph := add_node (t_graph st)
                    (SpeakNode \<lparr>node = n, implicit = True, lang = [], voice = []\<rparr>),
                last_speak := Some n,
                t_root := (case t_root st of None \<Rightarrow> Some n | Some r \<Rightarrow> Some r)\<rparr>)"

definition ensure_paragraph :: "bool \<Rightarrow> tree_state \<Rightarrow> tree_state" where
  "ensure_paragraph impl st =
     (case last_paragraph st of
        Some _ \<Rightarrow> st
      | None \<Rightarrow>
          let n = len_graph (t_graph st)
          in st\<lparr>t_graph := add_edge (add_node (t_graph st) (ParagraphNode (scope_base st impl)))
                              (the (last_speak st)) n,
                last_paragraph := Some n\<rparr>)"

definition ensure_sentence :: "tree_state \<Rightarrow> tree_state" where
  "ensure_sentence st =
     (case last_sentence st of
        Some _ \<Rightarrow> st
      | None \<Rightarrow>
          let n = len_graph (t_graph st)
          in st\<lparr>t_graph := add_edge (add_node (t_graph st) (SentenceNode (scope_base st True)))
                              (the (last_paragraph st)) n,
                last_sentence := Some n\<rparr>)"

definition push_lang :: "xml \<Rightarrow> tree_state \<Rightarrow> tree_state" where
  "push_lang elem st =
     (case attrib_no_namespace elem ''lang'' of
        None \<Rightarrow> st
      | Some l \<Rightarrow>
          if l = [] then st
          else st\<lparr>lang_stack := lang_stack st @ [(tag elem, l)], current_lang := l\<rparr>)"

text \<open>A chunk of text.\<close>

definition on_text :: "processor \<Rightarrow> string \<Rightarrow> tree_state \<Rightarrow> tree_state" where
  "on_text self chunk st0 =
     (if skip_elements st0 then st0
      else
        let txt = (case last_alias st0 of Some al \<Rightarrow> al | None \<Rightarrow> chunk);
            st = ensure_sentence (ensure_paragraph True (ensure_speak st0));
            s_node = the (last_sentence st)
        in if in_word st then
             let settings = get_settings self (current_lang st);
                 word_text = (if keep_whitespace settings \<and> \<not> is_last_word st
                                 \<and> \<not> endswith txt (join_str settings)
                              then txt @ join_str settings else txt);
                 g = t_graph st
             in st\<lparr>t_graph :=
                      add_edge (add_node g (scope_word st g False (strip word_text) word_text))
                        s_node (len_graph g)\<rparr>
           else st\<lparr>t_graph := pipeline_tokenize self st (t_graph st) s_node txt\<rparr>)"

text \<open>
  The end of an element.  The branches are tried in the order of the source, where the
  tag \<open>s\<close> stands twice: at the end of a sentence and, under the comment "End of sub",
  where the alias is cleared.
\<close>

definition on_end :: "processor \<Rightarrow> xml \<Rightarrow> tree_state \<Rightarrow> tree_state" where
  "on_end self elem st =
     (let end_tag = tag elem in
      if end_tag = ''voice'' then
        (if voice_stack st \<noteq> [] then st\<lparr>voice_stack := butlast (voice_stack st)\<rparr> else st)
      else if end_tag = ''say-as'' then
        (if say_as_stack st \<noteq> [] then st\<lparr>say_as_stack := butlast (say_as_stack st)\<rparr> else st)
      else
        let ls = (if lang_stack st \<noteq> [] \<and> fst (last (lang_stack st)) = end_tag
                  then butlast (lang_stack st) else lang_stack st);
            st1 = st\<lparr>lang_stack := ls,
                     current_lang := (if ls \<noteq> [] then snd (last ls) else default_lang self)\<rparr>
        in if end_tag = ''w'' \<or> end_tag = ''token'' then
             st1\<lparr>in_word := False, is_last_word := False, word_role := None\<rparr>
           else if end_tag = ''s'' then st1\<lparr>last_sentence := None\<rparr>
           else if end_tag = ''p'' then st1\<lparr>last_paragraph := None\<rparr>
           else if end_tag = ''speak'' then st1\<lparr>last_speak := t_root st1\<rparr>
           else if end_tag = ''s'' then st1\<lparr>last_alias := None\<rparr>
           else if end_tag = ''metadata'' then st1\<lparr>skip_elements := False\<rparr>
           else st1)"

text \<open>The start of an element.\<close>

definition on_start :: "processor \<Rightarrow> xml \<Rightarrow> bool \<Rightarrow> tree_state \<Rightarrow> py_exn + tree_state" where
  "on_start self elem is_last st0 =
     (if skip_elements st0 then Inr st0
      else
        let elem_tag = tag elem in
        if elem_tag = ''speak'' then
          (let st = push_lang elem st0;
               g = t_graph st;
               speak_node = SpeakNode (scope_base st False);
               r = (case t_root st of None \<Rightarrow> len_graph g | Some r0 \<Rightarrow> r0);
               root_data = (case t_root st of None \<Rightarrow> speak_node | Some r0 \<Rightarrow> node_data g r0)
           in Inr (st\<lparr>t_graph := add_node g root_data, t_root := Some r, last_speak := Some r\<rparr>))
        else if elem_tag = ''voice'' then
          Inr (st0\<lparr>voice_stack := voice_stack st0
                      @ [case attrib_no_namespace elem ''name'' of Some v \<Rightarrow> v | None \<Rightarrow> []]\<rparr>)
        else if elem_tag = ''p'' then
          (let st = push_lang elem (ensure_speak st0);
               n = len_graph (t_graph st)
           in Inr (st\<lparr>t_graph := add_edge (add_node (t_graph st)
                                      (ParagraphNode (scope_base st False)))
                                    (the (last_speak st)) n,
                      last_paragraph := Some n\<rparr>))
        else if elem_tag = ''s'' then
          (let st = push_lang elem (ensure_paragraph False (ensure_speak st0));
               n = len_graph (t_graph st)
           in Inr (st\<lparr>t_graph := add_edge (add_node (t_graph st)
                                      (SentenceNode (scope_base st False)))
                                    (the (last_paragraph st)) n,
                      last_sentence := Some n\<rparr>))
        else if elem_tag = ''w'' \<or> elem_tag = ''token'' then
          (let st = push_lang elem (st0\<lparr>in_word := True, is_last_word := is_last\<rparr>)
           in Inr (st\<lparr>word_role := attrib_no_namespace elem ''role''\<rparr>))
        else if elem_tag = ''break'' then
          (case (case last_sentence st0 of
                   Some n \<Rightarrow> Some n
                 | None \<Rightarrow> (case last_paragraph st0 of
                              Some n \<Rightarrow> Some n
                            | None \<Rightarrow> last_speak st0)) of
             None \<Rightarrow> Inl AssertionError
           | Some last_target \<Rightarrow>
               let g = t_graph st0;
                   break_node = BreakNode
                     \<lparr>node = len_graph g, implicit = False, lang = [], voice = [],
                      time = (case attrib_no_namespace elem ''time'' of
                                Some t \<Rightarrow> t | None \<Rightarrow> [])\<rparr>
               in Inr (st0\<lparr>t_graph := add_edge (add_node g break_node) last_target
                                          (len_graph g)\<rparr>))
        else if elem_tag = ''say-as'' then
          Inr (st0\<lparr>say_as_stack := say_as_stack st0
                 @ [(case attrib_no_namespace elem ''interpret-as'' of Some v \<Rightarrow> v | None \<Rightarrow> [],
                     case attrib_no_namespace elem ''format'' of Some v \<Rightarrow> v | None \<Rightarrow> [])]\<rparr>)
        else if elem_tag = ''sub'' then
          Inr (st0\<lparr>last_alias := Some (case attrib_no_namespace elem ''alias'' of
                                         Some v \<Rightarrow> v | None \<Rightarrow> [])\<rparr>)
        else if elem_tag = ''metadata'' then Inr (st0\<lparr>skip_elements := True\<rparr>)
        else Inr st0)"

definition on_event :: "processor \<Rightarrow> event \<Rightarrow> tree_state \<Rightarrow> py_exn + tree_state" where
  "on_event self ev st =
     (case ev of
        TextChunk chunk \<Rightarrow> Inr (on_text self chunk st)
      | EndElement elem \<Rightarrow> Inr (on_end self elem st)
      | StartElement elem is_last \<Rightarrow> on_start self elem is_last st)"

text \<open>The loop over the events, and \<open>assert root is not None\<close> after it.\<close>

definition build_tree :: "processor \<Rightarrow> event list \<Rightarrow> py_exn + graph \<times> nat" where
  "build_tree self events =
     bind_exn (fold_exn (on_event self) events (initial_state self)) (\<lambda>st.
       case t_root st of
         None \<Rightarrow> Inl AssertionError
       | Some r \<Rightarrow> Inr (t_graph st, r))"

section \<open>Sentence breaks\<close>

definition first_predecessor :: "graph \<Rightarrow> nat \<Rightarrow> py_exn + nat" where
  "first_predecessor g n = (case g_pred g n of [] \<Rightarrow> Inl StopIteration | p # _ \<Rightarrow> Inr p)"

text \<open>
  The path from a break up to the nearest sentence: \<open>s_path\<close>, as the numbers of its
  nodes.  The loop raises where a node has no predecessor, and may run forever in a
  graph with a cycle.
\<close>

definition sentence_path :: "graph \<Rightarrow> nat \<Rightarrow> py_exn + nat list" where
  "sentence_path g b =
     bind_exn (first_predecessor g b) (\<lambda>p0.
       case while_option
              (\<lambda>r. case r of Inr (p, path) \<Rightarrow> \<not> is_sentence (node_data g p) | Inl e \<Rightarrow> False)
              (\<lambda>r. case r of
                      Inr (p, path) \<Rightarrow>
                        bind_exn (first_predecessor g p) (\<lambda>q. Inr (q, path @ [q]))
                    | Inl e \<Rightarrow> Inl e)
              (Inr (p0, [p0])) of
         None \<Rightarrow> Inl Diverges
       | Some (Inl e) \<Rightarrow> Inl e
       | Some (Inr (p, path)) \<Rightarrow> Inr path)"

text \<open>
  \<open>_find_parent\<close>: the first predecessor of the class, or else the first match above
  one of the predecessors.  The recursion is bounded by the interpreter's limit.
\<close>

fun find_parent :: "nat \<Rightarrow> graph \<Rightarrow> (gnode \<Rightarrow> bool) \<Rightarrow> nat \<Rightarrow> py_exn + gnode option"
  and find_parent_above ::
    "nat \<Rightarrow> graph \<Rightarrow> (gnode \<Rightarrow> bool) \<Rightarrow> nat list \<Rightarrow> py_exn + gnode option" where
  "find_parent 0 g is_class n = Inl RecursionError"
| "find_parent (Suc k) g is_class n =
     (case find (\<lambda>p. is_class (node_data g p)) (g_pred g n) of
        Some p \<Rightarrow> Inr (Some (node_data g p))
      | None \<Rightarrow> find_parent_above k g is_class (g_pred g n))"
| "find_parent_above k g is_class [] = Inr None"
| "find_parent_above k g is_class (p # ps) =
     (case find_parent k g is_class p of
        Inl e \<Rightarrow> Inl e
      | Inr (Some m) \<Rightarrow> Inr (Some m)
      | Inr None \<Rightarrow> find_parent_above k g is_class ps)"

definition recursion_limit :: nat where
  "recursion_limit = 1000"

text \<open>\<open>edges.index(e)\<close>.\<close>

fun index_of :: "'a \<Rightarrow> 'a list \<Rightarrow> nat option" where
  "index_of x [] = None"
| "index_of x (y # ys) = (if x = y then Some 0 else map_option Suc (index_of x ys))"

text \<open>The body of the loop of \<open>_break_sentences\<close>, for one leaf.\<close>

definition break_sentence_at :: "graph \<Rightarrow> gnode \<Rightarrow> py_exn + graph" where
  "break_sentence_at g leaf =
     (case leaf of
        BreakWordNode break_word_node \<Rightarrow>
          if bw_break_type break_word_node \<noteq> MAJOR then Inr g
          else
            bind_exn (sentence_path g (node break_word_node)) (\<lambda>s_path.
              if length s_path < 2 then Inl AssertionError
              else
                let s_node = base_of (node_data g (last s_path)) in
                if \<not> implicit s_node then Inr g
                else
                  let below_s_node = base_of (node_data g (s_path ! (length s_path - 2)));
                      s_edges = out_edges g (node s_node)
                  in (case index_of (node s_node, node below_s_node) s_edges of
                        None \<Rightarrow> Inl ValueError
                      | Some break_edge_idx \<Rightarrow>
                          let edges_to_move = drop (break_edge_idx + 1) s_edges in
                          if edges_to_move = [] then Inr g
                          else
                            bind_exn (find_parent recursion_limit g is_paragraph (node s_node))
                              (\<lambda>found.
                                 case found of
                                   None \<Rightarrow> Inl AssertionError
                                 | Some p_data \<Rightarrow>
                                     let p_node = base_of p_data;
                                         p_edges = out_edges g (node p_node)
                                     in (case index_of (node p_node, node s_node) p_edges of
                                           None \<Rightarrow> Inl ValueError
                                         | Some s_edge_idx \<Rightarrow>
                                             let g1 = remove_edges_from g p_edges;
                                                 new_s = len_graph g1;
                                                 g2 = add_node g1
                                                   (SentenceNode \<lparr>node = new_s, implicit = True,
                                                      lang = [], voice = []\<rparr>);
                                                 g3 = add_edges_from g2
                                                   (take (s_edge_idx + 1) p_edges
                                                    @ [(node p_node, new_s)]
                                                    @ drop (s_edge_idx + 1) p_edges);
                                                 g4 = remove_edges_from g3 edges_to_move
                                             in Inr (add_edges_from g4
                                                       (map (\<lambda>(u, v). (new_s, v))
                                                            edges_to_move))))))
      | _ \<Rightarrow> Inr g)"

definition break_sentences :: "graph \<Rightarrow> nat \<Rightarrow> py_exn + graph" where
  "break_sentences g root_node =
     fold_exn (\<lambda>leaf h. break_sentence_at h (node_data h leaf)) (leaves g root_node) g"

section \<open>Parts of speech and phonemes\<close>

definition set_word :: "word_node \<Rightarrow> graph \<Rightarrow> graph" where
  "set_word w g = g\<lparr>g_nodes := (g_nodes g)[node w := WordNode w]\<rparr>"

definition the_word :: "graph \<Rightarrow> nat \<Rightarrow> word_node" where
  "the_word g n = (case node_data g n of WordNode w \<Rightarrow> w)"

text \<open>
  \<open>process_sentence\<close>: the tagger is called once with the texts of the words, the
  phonemizer once or twice for each word that has no phonemes.  An exception of a
  callback leaves the function.  \<open>node_lang\<close> is the language of the node that the loop
  around the function is at.
\<close>

definition tag_sentence :: "processor \<Rightarrow> string \<Rightarrow> nat list \<Rightarrow> graph \<Rightarrow> py_exn + graph" where
  "tag_sentence self node_lang ws g =
     (case get_parts_of_speech (get_settings self node_lang) of
        None \<Rightarrow> Inr g
      | Some tagger \<Rightarrow>
          bind_exn (tagger (map (\<lambda>n. wtext (the_word g n)) ws)) (\<lambda>pos_tags.
            Inr (fold (\<lambda>(n, pos_tag) h.
                         let w = the_word h n;
                             w1 = w\<lparr>pos := Some pos_tag\<rparr>;
                             w2 = (if role w1 = [] then w1\<lparr>role := ''gruut:'' @ pos_tag\<rparr>
                                   else w1)
                         in set_word w2 h)
                      (zip ws pos_tags) g)))"

definition no_phonemes :: "word_node \<Rightarrow> bool" where
  "no_phonemes w = (phonemes w = None \<or> phonemes w = Some [])"

definition phonemize_word :: "processor \<Rightarrow> nat \<Rightarrow> graph \<Rightarrow> py_exn + graph" where
  "phonemize_word self n g =
     (let w = the_word g n in
      if \<not> no_phonemes w then Inr g
      else
        let settings = get_settings self (lang w) in
        bind_exn (case lookup_phonemes settings of
                    None \<Rightarrow> Inr w
                  | Some lookup \<Rightarrow>
                      bind_exn (lookup (wtext w) (Some (role w)))
                        (\<lambda>ps. Inr (w\<lparr>phonemes := ps\<rparr>))) (\<lambda>w1.
        bind_exn (case guess_phonemes settings of
                    None \<Rightarrow> Inr w1
                  | Some guess \<Rightarrow>
                      if no_phonemes w1 then
                        bind_exn (guess (wtext w1) (Some (role w1)))
                          (\<lambda>ps. Inr (w1\<lparr>phonemes := ps\<rparr>))
                      else Inr w1) (\<lambda>w2.
        Inr (set_word w2 g))))"

definition process_sentence ::
  "processor \<Rightarrow> bool \<Rightarrow> bool \<Rightarrow> string \<Rightarrow> nat list \<Rightarrow> graph \<Rightarrow> py_exn + graph" where
  "process_sentence self do_pos phonemize node_lang ws g =
     bind_exn (if do_pos then tag_sentence self node_lang ws g else Inr g) (\<lambda>g1.
       if phonemize then fold_exn (phonemize_word self) ws g1 else Inr g1)"

text \<open>
  The loop over the tree that gathers the words of each sentence; the state is the graph
  and the words gathered since the last sentence node.
\<close>

definition enrich_step ::
  "processor \<Rightarrow> bool \<Rightarrow> bool \<Rightarrow> nat \<Rightarrow> graph \<times> nat list \<Rightarrow> py_exn + graph \<times> nat list" where
  "enrich_step self do_pos phonemize dfs_node st =
     (let (g, sentence_words) = st; d = node_data g dfs_node in
      if is_sentence d then
        (if sentence_words \<noteq> [] then
           bind_exn (process_sentence self do_pos phonemize (lang (base_of d)) sentence_words g)
             (\<lambda>g1. Inr (g1, []))
         else Inr (g, sentence_words))
      else if out_degree g dfs_node = 0 then
        (case d of
           WordNode w \<Rightarrow> Inr (g, sentence_words @ [node w])
         | _ \<Rightarrow> Inr (g, sentence_words))
      else Inr (g, sentence_words))"

definition enrich :: "processor \<Rightarrow> bool \<Rightarrow> bool \<Rightarrow> graph \<Rightarrow> nat \<Rightarrow> py_exn + graph" where
  "enrich self do_pos phonemize g root_node =
     (let order = dfs_preorder_nodes g root_node in
      bind_exn (fold_exn (enrich_step self do_pos phonemize) order (g, [])) (\<lambda>(g1, sentence_words).
        if sentence_words \<noteq> [] then
          process_sentence self do_pos phonemize (lang (base_of (node_data g1 (last order))))
            sentence_words g1
        else Inr g1))"

section \<open>The pipeline\<close>

text \<open>
  \<open>__call__\<close> from the parsed document on: the tree, the splits, the sentence breaks, the
  transformations and verbalizations, the last splits, parts of speech and phonemes.
  (The hooks \<open>post_process_sentence\<close> and \<open>post_process_graph\<close>, which do nothing unless
  the caller supplies them, are left out.)
\<close>

definition run_pipeline ::
  "processor \<Rightarrow> bool \<Rightarrow> bool \<Rightarrow> graph \<Rightarrow> nat \<Rightarrow> py_exn + graph" where
  "run_pipeline self do_pos phonemize g0 r =
     bind_exn (pipeline_split (split_replacements self) g0 r) (\<lambda>g.
     bind_exn (pipeline_split (split_punctuations self) g r) (\<lambda>g.
     bind_exn (pipeline_split (split_minor_breaks self) g r) (\<lambda>g.
     bind_exn (pipeline_split (split_abbreviations self) g r) (\<lambda>g.
     bind_exn (pipeline_split (split_initialism_pass self) g r) (\<lambda>g.
     bind_exn (pipeline_split (split_major_breaks self) g r) (\<lambda>g.
     bind_exn (pipeline_split (split_punctuations self) g r) (\<lambda>g.
     bind_exn (pipeline_split (split_initialism_pass self) g r) (\<lambda>g.
     bind_exn (break_sentences g r) (\<lambda>g.
     bind_exn (pipeline_split (split_spell_out self) g r) (\<lambda>g.
     bind_exn (pipeline_transform (on_word (transform_number self)) g r) (\<lambda>g.
     bind_exn (pipeline_transform (on_word (transform_currency self)) g r) (\<lambda>g.
     bind_exn (pipeline_transform (on_word (transform_date self)) g r) (\<lambda>g.
     bind_exn (pipeline_transform (verbalize_number self) g r) (\<lambda>g.
     bind_exn (pipeline_transform (verbalize_currency self) g r) (\<lambda>g.
     bind_exn (pipeline_transform (verbalize_date self) g r) (\<lambda>g.
     bind_exn (pipeline_split (break_words self) g r) (\<lambda>g.
     bind_exn (pipeline_split (split_ignore_non_words self) g r) (\<lambda>g.
     enrich self do_pos phonemize g r))))))))))))))))))"

definition process_events ::
  "processor \<Rightarrow> event list \<Rightarrow> bool \<Rightarrow> bool \<Rightarrow> py_exn + graph \<times> nat" where
  "process_events self events do_pos phonemize =
     bind_exn (build_tree self events) (\<lambda>(g, r).
       bind_exn (run_pipeline self do_pos phonemize g r) (\<lambda>g'. Inr (g', r)))"




section \<open>The sentences of a graph\<close>

record out_word =
  o_idx :: nat
  o_sent_idx :: nat
  o_text :: string
  o_text_with_ws :: string
  o_phonemes :: "string list option"
  o_pos :: "string option"
  o_lang :: string
  o_voice :: string
  is_break :: bool
  is_punctuation :: bool

record out_sentence =
  so_idx :: nat
  so_text :: string
  so_text_with_ws :: string
  so_lang :: string
  so_voice :: string
  so_words :: "out_word list"

record sentence_flags =
  major_breaks :: bool
  minor_breaks :: bool
  punctuations :: bool
  explicit_lang :: bool
  break_phonemes :: bool

definition get_lang :: "processor \<Rightarrow> sentence_flags \<Rightarrow> string \<Rightarrow> string" where
  "get_lang self flags l = (if explicit_lang flags \<or> l \<noteq> default_lang self then l else [])"

text \<open>The voice of a sentence: the one voice of its words, if there is one.\<close>

fun sentence_voice :: "string \<Rightarrow> out_word list \<Rightarrow> string" where
  "sentence_voice sent_voice [] = sent_voice"
| "sentence_voice sent_voice (w # ws) =
     (if o_voice w \<noteq> [] then
        (if sent_voice \<noteq> [] \<and> sent_voice \<noteq> o_voice w then []
         else sentence_voice (o_voice w) ws)
      else sentence_voice sent_voice ws)"

definition make_sentence ::
  "processor \<Rightarrow> sentence_flags \<Rightarrow> node_base \<Rightarrow> out_word list \<Rightarrow> nat \<Rightarrow> out_sentence" where
  "make_sentence self flags s_node ws sent_idx =
     (let settings = get_settings self (lang s_node);
          tws = concat (map o_text_with_ws ws);
          sent_voice = sentence_voice [] ws
      in \<lparr>so_idx = sent_idx,
          so_text = normalize_whitespace settings tws,
          so_text_with_ws = tws,
          so_lang = get_lang self flags (lang s_node),
          so_voice = sent_voice,
          so_words = (if sent_voice \<noteq> [] then map (\<lambda>w. w\<lparr>o_voice := sent_voice\<rparr>) ws
                      else ws)\<rparr>)"

text \<open>
  \<open>_phonemes_for_break\<close>: the symbol of \<open>IPA.BREAK_MAJOR\<close> or \<open>IPA.BREAK_MINOR\<close>, of the
  library \<open>gruut_ipa\<close>.
\<close>

definition phonemes_for_break :: "break_type \<Rightarrow> string list option" where
  "phonemes_for_break bt = (case bt of MAJOR \<Rightarrow> Some [''||''] | MINOR \<Rightarrow> Some [''|''])"

record flat_state =
  f_sent_idx :: nat
  f_word_idx :: nat
  f_words :: "out_word list"
  f_last_sentence_node :: "node_base option"
  f_out :: "out_sentence list"

definition leaf_word ::
  "processor \<Rightarrow> sentence_flags \<Rightarrow> flat_state \<Rightarrow> gnode \<Rightarrow> out_word option" where
  "leaf_word self flags st d =
     (case d of
        WordNode w \<Rightarrow>
          Some \<lparr>o_idx = f_word_idx st, o_sent_idx = f_sent_idx st, o_text = wtext w,
                o_text_with_ws = text_with_ws w, o_phonemes = phonemes w, o_pos = pos w,
                o_lang = get_lang self flags (lang w), o_voice = voice w,
                is_break = False, is_punctuation = False\<rparr>
      | BreakWordNode b \<Rightarrow>
          if (minor_breaks flags \<and> bw_break_type b = MINOR)
             \<or> (major_breaks flags \<and> bw_break_type b = MAJOR)
          then
            Some \<lparr>o_idx = f_word_idx st, o_sent_idx = f_sent_idx st, o_text = bw_text b,
                  o_text_with_ws = bw_text_with_ws b,
                  o_phonemes = (if break_phonemes flags
                                then phonemes_for_break (bw_break_type b) else None),
                  o_pos = None, o_lang = get_lang self flags (lang b), o_voice = [],
                  is_break = True, is_punctuation = False\<rparr>
          else None
      | PunctuationWordNode pw \<Rightarrow>
          if punctuations flags then
            Some \<lparr>o_idx = f_word_idx st, o_sent_idx = f_sent_idx st, o_text = pw_text pw,
                  o_text_with_ws = pw_text_with_ws pw, o_phonemes = None, o_pos = None,
                  o_lang = get_lang self flags (lang pw), o_voice = [],
                  is_break = False, is_punctuation = True\<rparr>
          else None
      | _ \<Rightarrow> None)"

definition flat_step ::
  "processor \<Rightarrow> sentence_flags \<Rightarrow> graph \<Rightarrow> nat \<Rightarrow> flat_state \<Rightarrow> flat_state" where
  "flat_step self flags g dfs_node st =
     (let d = node_data g dfs_node in
      if is_sentence d then
        (if f_words st \<noteq> [] \<and> f_last_sentence_node st \<noteq> None then
           st\<lparr>f_out := f_out st
                  @ [make_sentence self flags (the (f_last_sentence_node st)) (f_words st)
                       (f_sent_idx st)],
              f_sent_idx := f_sent_idx st + 1, f_word_idx := 0, f_words := [],
              f_last_sentence_node := Some (base_of d)\<rparr>
         else st\<lparr>f_last_sentence_node := Some (base_of d)\<rparr>)
      else if out_degree g dfs_node = 0 then
        (case leaf_word self flags st d of
           Some w \<Rightarrow> st\<lparr>f_words := f_words st @ [w], f_word_idx := f_word_idx st + 1\<rparr>
         | None \<Rightarrow> st)
      else st)"

definition sentences ::
  "processor \<Rightarrow> graph \<Rightarrow> nat \<Rightarrow> sentence_flags \<Rightarrow> out_sentence list" where
  "sentences self g root_node flags =
     (let st = fold (flat_step self flags g) (dfs_preorder_nodes g root_node)
                 \<lparr>f_sent_idx = 0, f_word_idx = 0, f_words = [],
                  f_last_sentence_node = None, f_out = []\<rparr>
      in if f_words st \<noteq> [] \<and> f_last_sentence_node st \<noteq> None then
           f_out st @ [make_sentence self flags (the (f_last_sentence_node st)) (f_words st)
                         (f_sent_idx st)]
         else f_out st)"

text \<open>\<open>words\<close>: the words of the sentences, in turn.\<close>

definition words :: "processor \<Rightarrow> graph \<Rightarrow> nat \<Rightarrow> sentence_flags \<Rightarrow> out_word list" where
  "words self g root_node flags = concat (map so_words (sentences self g root_node flags))"

definition default_flags :: sentence_flags where
  "default_flags = \<lparr>major_breaks = True, minor_breaks = True, punctuations = True,
                     explicit_lang = True, break_phonemes = True\<rparr>"

section \<open>The parser, on character data\<close>

text \<open>
  \<open>fromstring\<close> on a document that is \<open>speak\<close> around character data and references to
  the predefined entities.  A character that XML does not allow (a control character
  other than tab, line feed and carriage return) and an \<open>&\<close> that starts no reference are
  errors of the document; a line end is read as a line feed.  Markup inside the element
  and any other document are not covered.
\<close>

definition xml_char :: "char \<Rightarrow> bool" where
  "xml_char c = (let n = of_char c :: nat in n = 9 \<or> n = 10 \<or> n = 13 \<or> 32 \<le> n)"

definition entities :: "(string \<times> char) list" where
  "entities = [(''amp'', CHR ''&''), (''lt'', CHR ''<''), (''gt'', CHR ''>''),
               (''quot'', CHR 0x22), (''apos'', CHR 0x27)]"

function decode_content :: "string \<Rightarrow> py_exn + string" where
  "decode_content s =
     (case s of
        [] \<Rightarrow> Inr []
      | c # cs \<Rightarrow>
          if c = CHR ''<'' then Inl Unmodelled
          else if c = CHR ''&'' then
            (case find (\<lambda>(name, ch). prefix (name @ '';'') cs) entities of
               None \<Rightarrow> if take 1 cs = ''#'' then Inl Unmodelled else Inl ParseError
             | Some (name, ch) \<Rightarrow>
                 bind_exn (decode_content (drop (length name + 1) cs)) (\<lambda>r. Inr (ch # r)))
          else if c = CHR 0x0D then
            bind_exn (decode_content (if take 1 cs = [CHR 0x0A] then drop 1 cs else cs))
              (\<lambda>r. Inr (CHR 0x0A # r))
          else if \<not> xml_char c then Inl ParseError
          else bind_exn (decode_content cs) (\<lambda>r. Inr (c # r)))"
  by pat_completeness auto

termination decode_content
  by (relation "measure length") auto

definition fromstring_chardata :: "string \<Rightarrow> py_exn + xml" where
  "fromstring_chardata doc =
     (if startswith doc ''<speak>'' \<and> endswith doc ''</speak>'' \<and> 15 \<le> length doc then
        bind_exn (decode_content (take (length doc - 15) (drop 7 doc)))
          (\<lambda>txt. Inr (Element ''speak'' [] txt [] []))
      else Inl Unmodelled)"


section \<open>A processor for the examples\<close>

text \<open>
  Stand-ins for the libraries, on the inputs of the examples.  babel's \<open>parse_decimal\<close>
  hands the string, its group symbols removed, to \<open>Decimal\<close>: a string of digits is the
  number it writes, \<open>Infinity\<close> is the special value, and a string such as \<open>abc\<close> is
  refused.  \<open>num2words\<close> is given for the amount and the number the examples verbalize.  The examples
  compile no pattern.
\<close>

definition digits_value :: "string \<Rightarrow> nat" where
  "digits_value s = foldl (\<lambda>n c. 10 * n + (of_char c - 48)) 0 s"

definition example_parse_decimal :: "string \<Rightarrow> string \<Rightarrow> decimal option" where
  "example_parse_decimal s l =
     (if s = ''Infinity'' then Some Infinity
      else if s \<noteq> [] \<and> list_all is_digit s then Some (Finite (of_nat (digits_value s)))
      else None)"

definition example_num2words ::
  "decimal \<Rightarrow> bool \<Rightarrow> string \<Rightarrow> string option \<Rightarrow> string option \<Rightarrow> py_exn + string" where
  "example_num2words d is_float l to cur =
     (if d = Finite 10 \<and> to = Some ''currency'' \<and> cur = Some ''USD''
      then Inr ''ten dollars| zero cents''
      else if d = Finite 5 \<and> \<not> is_float \<and> to = None \<and> cur = None then Inr ''five''
      else Inl (CollaboratorError ''NotImplementedError''))"

definition example_externals :: externals where
  "example_externals =
     \<lparr>parse_decimal = example_parse_decimal,
      dateparser_parse = (\<lambda>s strict l. None),
      num2words = example_num2words,
      format_month = (\<lambda>d l. []),
      locale_currencies = (\<lambda>l. [(''$'', ''USD'')]),
      compile_split = (\<lambda>src s. [s]),
      compile_split1 = (\<lambda>src s. [s]),
      compile_subn = (\<lambda>src template s. (s, 0)),
      compile_match = (\<lambda>src s. None),
      fromstring = fromstring_chardata\<rparr>"

text \<open>
  \<open>TextProcessor(default_lang, **kwargs)\<close>: the settings of every language are the
  default ones for the arguments given (the step through \<open>resolve_lang\<close>, of
  \<open>gruut.utils\<close>, left out).
\<close>

definition text_processor :: "externals \<Rightarrow> string \<Rightarrow> (string \<Rightarrow> raw_settings) \<Rightarrow> processor" where
  "text_processor x dl kwargs =
     \<lparr>default_lang = dl,
      get_settings = (\<lambda>l. post_init x (kwargs (if l = [] then dl else l))),
      ext = x\<rparr>"

definition example_processor :: processor where
  "example_processor = text_processor example_externals ''en_US'' default_raw_settings"

text \<open>
  Settings with sets of punctuation and breaks; each set is iterated with its shorter
  string first.
\<close>

definition punctuation_raw :: raw_settings where
  "punctuation_raw =
     (default_raw_settings ''en_US'')
       \<lparr>r_begin_punctuations := Some [''.'', ''...''],
        r_end_punctuations := Some [''.'', ''...''],
        r_major_breaks := [''.'', ''...''],
        r_minor_breaks := ['','', '',,''],
        r_word_breaks := [''-'', ''--'']\<rparr>"

text \<open>
  \<open>re.compile(literal).match\<close> for a literal without special characters: the text starts
  with the literal; a template without references to groups expands to itself.
\<close>

definition literal_match :: "string \<Rightarrow> re_match" where
  "literal_match lit = (\<lambda>s. if prefix lit s then Some (\<lambda>template. template) else None)"

text \<open>
  A processor with one abbreviation, given as a compiled pattern, and a major break.
\<close>

definition abbreviation_raw :: "string \<Rightarrow> raw_settings" where
  "abbreviation_raw l =
     (default_raw_settings l)
       \<lparr>r_abbreviations := [(Pat ''Mr'' (literal_match ''Mr''), ''Mister'')],
        r_major_breaks := [''.'']\<rparr>"

definition abbreviation_processor :: processor where
  "abbreviation_processor = text_processor example_externals ''en_US'' abbreviation_raw"

text \<open>
  The document \<open><speak><sub alias="A">x</sub><s>y</s></speak>\<close>.
\<close>

definition sub_then_sentence :: xml where
  "sub_then_sentence =
     Element ''speak'' [] []
       [Element ''sub'' [(''alias'', ''A'')] ''x'' [] [], Element ''s'' [] ''y'' [] []] []"





definition one_word_graph :: "word_node \<Rightarrow> graph" where
  "one_word_graph w = add_node empty_graph (WordNode w)"



section \<open>The transformations, word by word\<close>


section \<open>Facts about the example processor\<close>

lemma example_settings:
  "is_maybe_number (get_settings example_processor l) = Some has_digit"
  "is_maybe_currency (get_settings example_processor l) = Some has_digit"
  "is_maybe_date (get_settings example_processor l) = Some has_digit"
  "babel_locale (get_settings example_processor ''en_US'') = ''en_US''"
  "dateparser_lang (get_settings example_processor ''en_US'') = ''en''"
  "num2words_lang (get_settings example_processor ''en_US'') = ''en_US''"
  "ext example_processor = example_externals"
  by (simp_all add: example_processor_def text_processor_def post_init_def
      default_raw_settings_def post_babel_locale_def)



section \<open>The number transformation and the \<open>is_maybe_number\<close> predicate\<close>

text \<open>
  C4.  The claim: \<open>_transform_number\<close> parses the text of a word only when
  \<open>is_maybe_number(text)\<close> holds.  The code parses whatever the predicate says (the
  predicate is consulted by \<open>_verbalize_number\<close> only): with the default predicate
  \<open>has_digit\<close>, the word \<open>Infinity\<close>, which has no digit and which \<open>parse_decimal\<close>
  accepts, comes out with \<open>interpret_as = number\<close> and the parsed value.
\<close>

theorem transform_number_ignores_is_maybe_number:
  "is_maybe_number (get_settings example_processor ''en_US'') = Some has_digit
   \<and> \<not> has_digit ''Infinity''
   \<and> transform_number example_processor (plain_word ''Infinity'' ''Infinity'' ''en_US'' []) =
       Inr ((plain_word ''Infinity'' ''Infinity'' ''en_US'' [])
              \<lparr>interpret_as := NUMBER, number := Some Infinity\<rparr>)"
  by (simp add: example_settings transform_number_def plain_word_def has_digit_def is_digit_def
      example_externals_def example_parse_decimal_def NUMBER_def)

section \<open>The fields that go with an interpretation\<close>








section \<open>The alternations of the compiled patterns\<close>

lemma on_first_hd_tl: "xs \<noteq> [] \<Longrightarrow> on_first f xs = f (hd xs) # tl xs"
  by (cases xs) (simp_all add: on_first_def)

lemma on_first_nonempty: "on_first f xs \<noteq> []"
  by (cases xs) (simp_all add: on_first_def)

lemma split_bars_nonempty: "split_bars s \<noteq> []"
  by (induction s rule: split_bars.induct) (simp_all add: on_first_nonempty)

lemma special_bar: "re_special (CHR ''|'')" and special_backslash: "re_special (CHR 0x5C)"
  by (simp_all add: re_special_def backslash_def)

lemma split_bars_plain:
  assumes "[c] \<noteq> backslash" "c \<noteq> CHR ''|''"
  shows "split_bars (c # cs) = (c # hd (split_bars cs)) # tl (split_bars cs)"
proof (cases cs)
  case Nil
  then show ?thesis using assms by simp
next
  case (Cons d ds)
  then show ?thesis using assms split_bars_nonempty[of "d # ds"]
    by (simp add: on_first_hd_tl)
qed

lemma split_bars_escaped:
  "split_bars (CHR 0x5C # c # cs) = (CHR 0x5C # c # hd (split_bars cs)) # tl (split_bars cs)"
  using split_bars_nonempty[of cs] by (simp add: on_first_hd_tl backslash_def)

lemma split_bars_escape:
  "split_bars (re_escape l @ rest) = (re_escape l @ hd (split_bars rest)) # tl (split_bars rest)"
proof (induction l)
  case Nil
  then show ?case using split_bars_nonempty[of rest] by (simp add: re_escape_def)
next
  case (Cons c l)
  have e: "re_escape (c # l) = (if re_special c then backslash @ [c] else [c]) @ re_escape l"
    by (simp add: re_escape_def)
  show ?case
  proof (cases "re_special c")
    case True
    then show ?thesis using Cons e split_bars_escaped[of c "re_escape l @ rest"]
      by (simp add: backslash_def)
  next
    case False
    then have "c \<noteq> CHR ''|''" "[c] \<noteq> backslash"
      using special_bar special_backslash by (auto simp: backslash_def)
    from split_bars_plain[OF this(2,1), of "re_escape l @ rest"] show ?thesis
      using Cons e False by simp
  qed
qed

lemma split_bars_bar: "split_bars (CHR ''|'' # cs) = [] # split_bars cs"
  by (cases cs) (simp_all add: backslash_def)

lemma split_bars_alternation: "lits \<noteq> [] \<Longrightarrow> split_bars (alternation lits) = map re_escape lits"
proof (induction lits rule: induct_list012)
  case 1 then show ?case by simp
next
  case (2 x)
  show ?case using split_bars_escape[of x "[]"] by (simp add: alternation_def)
next
  case (3 x y zs)
  have "alternation (x # y # zs) = re_escape x @ CHR ''|'' # alternation (y # zs)"
    by (simp add: alternation_def)
  then show ?case using split_bars_escape[of x "CHR ''|'' # alternation (y # zs)"] 3
    by (simp add: split_bars_bar del: split_bars.simps)
qed

lemma re_unescape_escape: "re_unescape (re_escape l) = l"
proof (induction l)
  case Nil then show ?case by (simp add: re_escape_def)
next
  case (Cons c l)
  have e: "re_escape (c # l) = (if re_special c then backslash @ [c] else [c]) @ re_escape l"
    by (simp add: re_escape_def)
  show ?case
  proof (cases "re_special c")
    case True
    then show ?thesis using Cons e by (simp add: backslash_def)
  next
    case False
    then have "[c] \<noteq> backslash" using special_backslash by (auto simp: backslash_def)
    then show ?thesis using Cons e False by simp
  qed
qed

lemma pattern_literals_alternation: "lits \<noteq> [] \<Longrightarrow> pattern_literals (alternation lits) = lits"
  by (simp add: pattern_literals_def split_bars_alternation re_unescape_escape map_idI)

lemma sorted_currency: "r_currency_symbols raw = [] \<Longrightarrow>
  sorted_wrt (\<lambda>a b. length b \<le> length a) (post_currency_symbols x raw)"
proof -
  assume a: "r_currency_symbols raw = []"
  have "sorted_wrt (\<lambda>a b. - int (length a) \<le> - int (length b))
          (sort_key (\<lambda>s. - int (length s)) ys)" for ys :: "string list"
    using sorted_sort_key[of "\<lambda>s. - int (length s)" ys] unfolding sorted_map .
  then have "sorted_wrt (\<lambda>a b. length b \<le> length a) (sort_key (\<lambda>s. - int (length s)) ys)"
    for ys :: "string list"
    by simp
  then show ?thesis using a by (simp add: post_currency_symbols_def)
qed

text \<open>
  C5, as amended.  The claim: the alternation lists the literals by decreasing length.
  The code joins the escaped literals in the order in which the set is iterated
  (see \<open>alternation_not_sorted_by_length\<close>).  What holds: where no pattern overrides the
  set, the pattern is the alternation of the set's literals, each escaped, in the
  iteration order of the set, inside the anchors and groups of its kind; the literals
  can be read back from the alternation as they are, in that order.  Sorted by
  decreasing length are the currency symbols that are derived from the currencies.
\<close>

theorem alternation_in_iteration_order:
  "(r_begin_punctuations_pattern raw = None \<and> r_begin_punctuations raw = Some bs \<and> bs \<noteq> []
      \<longrightarrow> begin_punctuations_regex raw = Some (Str (''^('' @ alternation bs @ '')'')))
   \<and> (r_end_punctuations_pattern raw = None \<and> r_end_punctuations raw = Some es \<and> es \<noteq> []
      \<longrightarrow> end_punctuations_regex raw = Some (Str (''('' @ alternation es @ '')$'')))
   \<and> (r_major_breaks_pattern raw = None \<and> r_major_breaks raw \<noteq> []
      \<longrightarrow> major_breaks_regex raw =
            Some (Str (''((?:'' @ alternation (r_major_breaks raw)
                       @ '')(?:'' @ backslash @ ''s+|$))'')))
   \<and> (r_minor_breaks_pattern raw = None \<and> r_minor_breaks raw \<noteq> []
      \<longrightarrow> minor_breaks_regex raw =
            Some (Str (''((?:'' @ alternation (r_minor_breaks raw)
                       @ '')'' @ backslash @ ''s*)'')))
   \<and> (r_word_breaks_pattern raw = None \<and> r_word_breaks raw \<noteq> []
      \<longrightarrow> word_breaks_regex raw = Some (Str (''(?:'' @ alternation (r_word_breaks raw) @ '')'')))
   \<and> (literals \<noteq> [] \<longrightarrow> pattern_literals (alternation literals) = literals)
   \<and> (r_currency_symbols raw = []
      \<longrightarrow> sorted_wrt (\<lambda>a b. length b \<le> length a) (post_currency_symbols x raw))"
  by (simp add: begin_punctuations_regex_def end_punctuations_regex_def major_breaks_regex_def
      minor_breaks_regex_def word_breaks_regex_def truthy_def pattern_literals_alternation
      sorted_currency)

theorem alternation_in_iteration_order_witness:
  "begin_punctuations_regex punctuation_raw = Some (Str (''^('' @ alternation [''.'', ''...''] @ '')''))
   \<and> end_punctuations_regex punctuation_raw = Some (Str (''('' @ alternation [''.'', ''...''] @ '')$''))
   \<and> major_breaks_regex punctuation_raw =
        Some (Str (''((?:'' @ alternation [''.'', ''...''] @ '')(?:'' @ backslash @ ''s+|$))''))
   \<and> minor_breaks_regex punctuation_raw =
        Some (Str (''((?:'' @ alternation ['','', '',,''] @ '')'' @ backslash @ ''s*)''))
   \<and> word_breaks_regex punctuation_raw = Some (Str (''(?:'' @ alternation [''-'', ''--''] @ '')''))
   \<and> pattern_literals (alternation [''.'', ''...'']) = [''.'', ''...'']
   \<and> sorted_wrt (\<lambda>a b. length b \<le> length a)
         (post_currency_symbols example_externals punctuation_raw)"
proof -
  have h: "r_begin_punctuations_pattern punctuation_raw = None"
    "r_begin_punctuations punctuation_raw = Some [''.'', ''...'']"
    "r_end_punctuations_pattern punctuation_raw = None"
    "r_end_punctuations punctuation_raw = Some [''.'', ''...'']"
    "r_major_breaks_pattern punctuation_raw = None"
    "r_major_breaks punctuation_raw = [''.'', ''...'']"
    "r_minor_breaks_pattern punctuation_raw = None"
    "r_minor_breaks punctuation_raw = ['','', '',,'']"
    "r_word_breaks_pattern punctuation_raw = None"
    "r_word_breaks punctuation_raw = [''-'', ''--'']"
    "r_currency_symbols punctuation_raw = []"
    by (simp_all add: punctuation_raw_def default_raw_settings_def)
  have ne: "[''.'', ''...''] \<noteq> []" "['','', '',,''] \<noteq> []" "[''-'', ''--''] \<noteq> []"
    by simp_all
  show ?thesis
    using alternation_in_iteration_order[of punctuation_raw "[''.'', ''...'']"
        "[''.'', ''...'']" "[''.'', ''...'']" example_externals]
    unfolding h using ne by blast
qed

text \<open>
  The counterexample to C5: the begin punctuations \<open>.\<close> and \<open>...\<close>, iterated in this
  order, give the pattern \<open>^(\.|\.\.\.)\<close>, the shorter literal first.
\<close>

theorem alternation_not_sorted_by_length:
  "begin_punctuations_regex punctuation_raw =
     Some (Str (''^('' @ backslash @ ''.|'' @ backslash @ ''.'' @ backslash @ ''.''
                @ backslash @ ''.)''))
   \<and> pattern_literals (backslash @ ''.|'' @ backslash @ ''.'' @ backslash @ ''.'' @ backslash @ ''.'')
       = [''.'', ''...'']
   \<and> \<not> sorted_wrt (\<lambda>a b. length b \<le> length a) [''.'', ''...'']"
  by (simp add: begin_punctuations_regex_def punctuation_raw_def default_raw_settings_def
      truthy_def alternation_def re_escape_def re_special_def backslash_def pattern_literals_def
      on_first_def)

section \<open>The alias of a \<open>sub\<close> element\<close>

lemma on_end_keeps_alias: "last_alias (on_end self elem st) = last_alias st"
  by (simp add: on_end_def Let_def)

text \<open>
  C7.  The claim: after the end of a \<open>sub\<close> element the alias is cleared, so that later
  text is tokenized as itself.  The code never clears the alias: the branch that would
  (under the comment "End of sub") tests the tag \<open>s\<close>, which an earlier branch has taken.
  No end of an element changes \<open>last_alias\<close>, and in the document
  \<open><speak><sub alias="A">x</sub><s>y</s></speak>\<close> the text \<open>y\<close> of the sentence comes out as
  the alias \<open>A\<close>.
\<close>

theorem alias_is_never_cleared:
  "(\<forall>self elem st. last_alias (on_end self elem st) = last_alias st)
   \<and> (case process_events example_processor (text_and_elements False sub_then_sentence) True True of
        Inr (g, r) \<Rightarrow> map o_text (words example_processor g r default_flags)
      | Inl e \<Rightarrow> []) = [''A'', ''A'']"
proof -
  have "(case process_events example_processor (text_and_elements False sub_then_sentence) True True of
        Inr (g, r) \<Rightarrow> map o_text (words example_processor g r default_flags)
      | Inl e \<Rightarrow> []) = [''A'', ''A'']"
    by code_simp
  then show ?thesis using on_end_keeps_alias by blast
qed

section \<open>Text that is not SSML\<close>

















section \<open>Abbreviations\<close>

lemma first_match_None: "first_match abbrs tx = None \<longleftrightarrow> (\<forall>(p, t) \<in> set abbrs. p tx = None)"
  by (induction abbrs tx rule: first_match.induct) (auto split: option.splits)

lemma first_match_Some:
  "first_match abbrs tx = Some e \<longleftrightarrow>
     (\<exists>before p t after expand. abbrs = before @ (p, t) # after
        \<and> (\<forall>(q, u) \<in> set before. q tx = None) \<and> p tx = Some expand \<and> e = expand t)"
proof (induction abbrs tx rule: first_match.induct)
  case (1 tx)
  then show ?case by simp
next
  case (2 pattern template rest tx)
  show ?case
  proof (cases "pattern tx")
    case None
    have "(\<exists>before p t after expand. (pattern, template) # rest = before @ (p, t) # after
        \<and> (\<forall>(q, u) \<in> set before. q tx = None) \<and> p tx = Some expand \<and> e = expand t)
      \<longleftrightarrow> (\<exists>before p t after expand. rest = before @ (p, t) # after
        \<and> (\<forall>(q, u) \<in> set before. q tx = None) \<and> p tx = Some expand \<and> e = expand t)"
      (is "?L \<longleftrightarrow> ?R")
    proof
      assume ?L
      then obtain before p t after expand where
        h: "(pattern, template) # rest = before @ (p, t) # after"
           "\<forall>(q, u) \<in> set before. q tx = None" "p tx = Some expand" "e = expand t"
        by blast
      show ?R
      proof (cases before)
        case Nil
        then show ?thesis using h None by simp
      next
        case (Cons b bs)
        then have "rest = bs @ (p, t) # after" "\<forall>(q, u) \<in> set bs. q tx = None"
          using h by auto
        then show ?thesis using h(3,4) by blast
      qed
    next
      assume ?R
      then obtain before p t after expand where
        h: "rest = before @ (p, t) # after"
           "\<forall>(q, u) \<in> set before. q tx = None" "p tx = Some expand" "e = expand t"
        by blast
      have "(pattern, template) # rest = ((pattern, template) # before) @ (p, t) # after"
        "\<forall>(q, u) \<in> set ((pattern, template) # before). q tx = None"
        using h None by auto
      then show ?L using h(3,4) by blast
    qed
    then show ?thesis using 2 None by simp
  next
    case (Some expand)
    have "(\<exists>before p t after ex. (pattern, template) # rest = before @ (p, t) # after
        \<and> (\<forall>(q, u) \<in> set before. q tx = None) \<and> p tx = Some ex \<and> e = ex t)
      \<longleftrightarrow> e = expand template" (is "?L \<longleftrightarrow> ?R")
    proof
      assume ?L
      then obtain before p t after ex where
        h: "(pattern, template) # rest = before @ (p, t) # after"
           "\<forall>(q, u) \<in> set before. q tx = None" "p tx = Some ex" "e = ex t"
        by blast
      show ?R
      proof (cases before)
        case Nil
        then show ?thesis using h Some by simp
      next
        case (Cons b bs)
        then have "pattern tx = None" using h by auto
        then show ?thesis using Some by simp
      qed
    next
      assume ?R
      then have "(pattern, template) # rest = [] @ (pattern, template) # rest
         \<and> (\<forall>(q, u) \<in> set []. q tx = None) \<and> pattern tx = Some expand \<and> e = expand template"
        using Some by simp
      then show ?L by blast
    qed
    then show ?thesis using Some by auto
  qed
qed

lemma dict_set_fresh: "src \<notin> fst ` set acc \<Longrightarrow> dict_set acc src m t = acc @ [(src, m, t)]"
  by (induction acc) auto

lemma fold_dict_set:
  "distinct (map fst acc @ map (\<lambda>i. fst (f i)) items) \<Longrightarrow>
   fold (\<lambda>item acc. case f item of (src, m, t) \<Rightarrow> dict_set acc src m t) items acc
     = acc @ map f items"
proof (induction items arbitrary: acc)
  case Nil
  then show ?case by simp
next
  case (Cons i items)
  obtain src m t where fi: "f i = (src, m, t)" by (cases "f i")
  have fresh: "src \<notin> fst ` set acc" using Cons.prems fi by auto
  have d: "distinct (map fst (acc @ [(src, m, t)]) @ map (\<lambda>i. fst (f i)) items)"
    using Cons.prems fi by auto
  show ?case using Cons.IH[OF d] fi dict_set_fresh[OF fresh] by simp
qed

lemma compiled_in_order:
  assumes "distinct (map (\<lambda>item. regex_source (fst (abbreviation_regex (r_major_breaks raw) item)))
                         (r_abbreviations raw))"
  shows "compiled_abbreviations x raw = map (compiled_item x (r_major_breaks raw)) (r_abbreviations raw)"
proof -
  have a: "(\<lambda>item acc. let (r, template) = abbreviation_regex (r_major_breaks raw) item
             in dict_set acc (regex_source r) (maybe_compile_regex (compile_match x) r) template)
        = (\<lambda>item acc. case compiled_item x (r_major_breaks raw) item of (src, m, t) \<Rightarrow> dict_set acc src m t)"
    by (auto simp: compiled_item_def fun_eq_iff split: prod.splits)
  have b: "(\<lambda>i. fst (compiled_item x (r_major_breaks raw) i))
         = (\<lambda>item. regex_source (fst (abbreviation_regex (r_major_breaks raw) item)))"
    by (auto simp: compiled_item_def fun_eq_iff split: prod.splits)
  show ?thesis
    unfolding compiled_abbreviations_def a
    using fold_dict_set[of "[]" "compiled_item x (r_major_breaks raw)" "r_abbreviations raw"] assms
    by (simp add: b)
qed

lemma abbreviation_regex_cases:
  "(mb \<noteq> [] \<and> \<not> endswith p ''$'' \<longrightarrow>
      abbreviation_regex mb (Str p, t) = (Str (p @ break_suffix mb), t @ template_suffix))
   \<and> (mb = [] \<or> endswith p ''$'' \<longrightarrow> abbreviation_regex mb (Str p, t) = (Str p, t))
   \<and> abbreviation_regex mb (Pat src m, t) = (Pat src m, t)"
  by (simp add: abbreviation_regex_def break_suffix_def template_suffix_def)

lemma endswith_append: "endswith (a @ b) b"
  by (simp add: endswith_def)

lemma break_suffix_dollar: "endswith (p @ break_suffix mb) ''$''"
proof -
  have "p @ break_suffix mb = (p @ ''(?P<break>'' @ alternation mb @ '')?(?P<whitespace>'' @ backslash @ ''s*)'') @ ''$''"
    by (simp add: break_suffix_def)
  then show ?thesis using endswith_append by metis
qed

lemma raw_string_ends_with_dollar:
  "mb \<noteq> [] \<Longrightarrow> endswith (regex_source (fst (abbreviation_regex mb (Str p, t)))) ''$''"
  using abbreviation_regex_cases[of mb p t] break_suffix_dollar[of p mb]
  by (cases "endswith p ''$''") (simp_all add: regex_source_def)

text \<open>
  C6, as amended.  The claim: a pattern expands only when it matches the whole
  \<open>text_with_ws\<close>, and every pattern given as a string gets, when there are major breaks,
  the break and whitespace groups appended.  Neither holds as stated (see
  \<open>abbreviation_prefix_match_and_dollar\<close>).  What holds: the patterns are tried in the
  order of the dictionary and the first whose \<open>match\<close> succeeds -- a match at the start
  of \<open>text_with_ws\<close> -- gives the expansion; a pattern given as a string that does not end
  with \<open>$\<close> gets, when there are major breaks, the optional break group, the whitespace
  group and \<open>$\<close> appended, and its template the two groups; a string that ends with
  \<open>$\<close>, any string when there are no major breaks, and a compiled pattern are left as
  they are; so with major breaks every pattern given as a string ends with \<open>$\<close>; and
  the compiled abbreviations keep the order of the items (their sources being distinct).
\<close>

theorem abbreviations_first_match:
  "(first_match abbrs tx = None \<longleftrightarrow> (\<forall>(p, t) \<in> set abbrs. p tx = None))
   \<and> (first_match abbrs tx = Some e \<longleftrightarrow>
        (\<exists>before p t after expand. abbrs = before @ (p, t) # after
           \<and> (\<forall>(q, u) \<in> set before. q tx = None) \<and> p tx = Some expand \<and> e = expand t))
   \<and> (interpret_as w = [] \<and> abbreviations (get_settings self (lang w)) \<noteq> [] \<longrightarrow>
        split_abbreviations self (WordNode w) =
          Inr (case first_match (abbreviations (get_settings self (lang w))) (text_with_ws w) of
                 Some new_text \<Rightarrow> tokenize_new_text (get_settings self (lang w)) (lang w) new_text
               | None \<Rightarrow> []))
   \<and> (mb \<noteq> [] \<and> \<not> endswith pat ''$'' \<longrightarrow>
        abbreviation_regex mb (Str pat, template) =
          (Str (pat @ break_suffix mb), template @ template_suffix))
   \<and> (mb = [] \<or> endswith pat ''$'' \<longrightarrow>
        abbreviation_regex mb (Str pat, template) = (Str pat, template))
   \<and> abbreviation_regex mb (Pat src m, template) = (Pat src m, template)
   \<and> (mb \<noteq> [] \<longrightarrow>
        endswith (regex_source (fst (abbreviation_regex mb (Str pat, template)))) ''$'')
   \<and> (distinct (map (\<lambda>item. regex_source (fst (abbreviation_regex (r_major_breaks raw) item)))
                     (r_abbreviations raw)) \<longrightarrow>
        abbreviations (post_init x raw) =
          map (\<lambda>item. snd (compiled_item x (r_major_breaks raw) item)) (r_abbreviations raw))"
proof -
  have s: "interpret_as w = [] \<and> abbreviations (get_settings self (lang w)) \<noteq> [] \<longrightarrow>
        split_abbreviations self (WordNode w) =
          Inr (case first_match (abbreviations (get_settings self (lang w))) (text_with_ws w) of
                 Some new_text \<Rightarrow> tokenize_new_text (get_settings self (lang w)) (lang w) new_text
               | None \<Rightarrow> [])"
    by (simp add: split_abbreviations_def Let_def split: option.splits)
  have c: "distinct (map (\<lambda>item. regex_source (fst (abbreviation_regex (r_major_breaks raw) item)))
                     (r_abbreviations raw)) \<longrightarrow>
        abbreviations (post_init x raw) =
          map (\<lambda>item. snd (compiled_item x (r_major_breaks raw) item)) (r_abbreviations raw)"
    using compiled_in_order[of raw x] by (simp add: post_init_def)
  from first_match_None[of abbrs tx] first_match_Some[of abbrs tx e] s c
    abbreviation_regex_cases[of mb pat template src m] raw_string_ends_with_dollar[of mb pat template]
  show ?thesis by blast
qed

lemma mr_settings:
  "abbreviations (get_settings abbreviation_processor ''en_US'') = [(literal_match ''Mr'', ''Mister'')]"
  by (simp add: abbreviation_processor_def text_processor_def post_init_def abbreviation_raw_def
      default_raw_settings_def compiled_abbreviations_def abbreviation_regex_def Let_def
      regex_source_def maybe_compile_regex_def)

lemma mr_settings2:
  "split_pattern (get_settings abbreviation_processor ''en_US'') = split_ws"
  "keep_whitespace (get_settings abbreviation_processor ''en_US'')"
  "normalize_whitespace (get_settings abbreviation_processor ''en_US'') = default_normalize_whitespace"
  by (simp_all add: abbreviation_processor_def text_processor_def post_init_def abbreviation_raw_def
      default_raw_settings_def maybe_compile_regex_def)

lemma split_ws_Mister: "split_ws ''Mister'' = [''Mister'']"
  by (simp add: is_space_def)

lemma strip_Mister: "strip ''Mister'' = ''Mister''"
  by (simp add: strip_def lstrip_def rstrip_def is_space_def)

lemma tokenize_Mister:
  "tokenize_new_text (get_settings abbreviation_processor ''en_US'') ''en_US'' ''Mister''
     = [mk_word ''Mister'' ''Mister'' ''en_US'' ROLE_DEFAULT]"
  by (simp add: tokenize_new_text_def mr_settings2 split_ws_Mister or_empty_def strip_Mister
      default_normalize_whitespace_def Let_def del: split_ws.simps)

theorem abbreviations_first_match_witness:
  "first_match [(literal_match ''Mr'', ''Mister''), (literal_match ''Mrs'', ''Missus'')] ''Mrs '' = Some ''Mister''
   \<and> split_abbreviations abbreviation_processor (WordNode (plain_word ''Mrs'' ''Mrs '' ''en_US'' []))
       = Inr [mk_word ''Mister'' ''Mister'' ''en_US'' ROLE_DEFAULT]
   \<and> abbreviation_regex [''.''] (Str ''^Dr'', ''Doctor'')
       = (Str (''^Dr'' @ break_suffix [''.'']), ''Doctor'' @ template_suffix)
   \<and> abbreviation_regex [] (Str ''^Dr'', ''Doctor'') = (Str ''^Dr'', ''Doctor'')
   \<and> endswith (regex_source (fst (abbreviation_regex [''.''] (Str ''^Dr'', ''Doctor'')))) ''$''
   \<and> abbreviations (post_init example_externals (abbreviation_raw ''en_US''))
       = map (\<lambda>item. snd (compiled_item example_externals [''.''] item))
             [(Pat ''Mr'' (literal_match ''Mr''), ''Mister'')]"
proof -
  let ?abbrs = "[(literal_match ''Mr'', ''Mister''), (literal_match ''Mrs'', ''Missus'')]"
  let ?w = "plain_word ''Mrs'' ''Mrs '' ''en_US'' []"
  have m: "\<exists>before p t after expand. ?abbrs = before @ (p, t) # after
       \<and> (\<forall>(q, u) \<in> set before. q ''Mrs '' = None) \<and> p ''Mrs '' = Some expand
       \<and> ''Mister'' = expand t"
    by (rule exI[of _ "[]"], rule exI[of _ "literal_match ''Mr''"], rule exI[of _ "''Mister''"],
        rule exI[of _ "[(literal_match ''Mrs'', ''Missus'')]"], rule exI[of _ "\<lambda>t. t"])
       (simp add: literal_match_def)
  have w: "interpret_as ?w = []" "lang ?w = ''en_US''" "text_with_ws ?w = ''Mrs ''"
    by (simp_all add: plain_word_def)
  have a: "abbreviations (get_settings abbreviation_processor (lang ?w)) \<noteq> []"
    by (simp add: w mr_settings)
  have fm: "first_match (abbreviations (get_settings abbreviation_processor (lang ?w))) (text_with_ws ?w)
      = Some ''Mister''"
    by (simp add: w mr_settings literal_match_def)
  have d: "distinct (map (\<lambda>item. regex_source (fst (abbreviation_regex (r_major_breaks (abbreviation_raw ''en_US'')) item)))
                     (r_abbreviations (abbreviation_raw ''en_US'')))"
    by (simp add: abbreviation_raw_def default_raw_settings_def)
  have r: "r_major_breaks (abbreviation_raw ''en_US'') = [''.'']"
    "r_abbreviations (abbreviation_raw ''en_US'') = [(Pat ''Mr'' (literal_match ''Mr''), ''Mister'')]"
    by (simp_all add: abbreviation_raw_def default_raw_settings_def)
  have e: "\<not> endswith ''^Dr'' ''$''" by (simp add: endswith_def)
  note t1 = abbreviations_first_match[of ?abbrs "''Mrs ''" "''Mister''" ?w abbreviation_processor
      "[''.'']" "''^Dr''" "''Doctor''" "''x''" "literal_match ''x''" "abbreviation_raw ''en_US''" example_externals]
  note t2 = abbreviations_first_match[of ?abbrs "''Mrs ''" "''Mister''" ?w abbreviation_processor
      "[]" "''^Dr''" "''Doctor''" "''x''" "literal_match ''x''" "abbreviation_raw ''en_US''" example_externals]
  have p1: "first_match ?abbrs ''Mrs '' = Some ''Mister''" using t1 m by blast
  have p2: "split_abbreviations abbreviation_processor (WordNode ?w)
       = Inr [mk_word ''Mister'' ''Mister'' ''en_US'' ROLE_DEFAULT]"
    using t1 w(1) a fm tokenize_Mister w(2) by simp
  have p3: "abbreviation_regex [''.''] (Str ''^Dr'', ''Doctor'')
       = (Str (''^Dr'' @ break_suffix [''.'']), ''Doctor'' @ template_suffix)"
    using t1 e by blast
  have p4: "abbreviation_regex [] (Str ''^Dr'', ''Doctor'') = (Str ''^Dr'', ''Doctor'')"
    using t2 by blast
  have p5: "endswith (regex_source (fst (abbreviation_regex [''.''] (Str ''^Dr'', ''Doctor'')))) ''$''"
    using t1 by blast
  have p6: "abbreviations (post_init example_externals (abbreviation_raw ''en_US''))
       = map (\<lambda>item. snd (compiled_item example_externals [''.''] item))
             [(Pat ''Mr'' (literal_match ''Mr''), ''Mister'')]"
    using t1 d unfolding r by blast
  from p1 p2 p3 p4 p5 p6 show ?thesis by blast
qed

text \<open>
  The counterexample to C6: the compiled pattern \<open>Mr\<close> expands the word \<open>Mrs\<close>, which
  it matches at its start only; and the string \<open>^etc$\<close> is compiled as it is, major
  breaks or not.
\<close>

theorem abbreviation_prefix_match_and_dollar:
  "split_abbreviations abbreviation_processor (WordNode (plain_word ''Mrs'' ''Mrs '' ''en_US'' []))
     = Inr [mk_word ''Mister'' ''Mister'' ''en_US'' ROLE_DEFAULT]
   \<and> abbreviation_regex [''.''] (Str ''^etc$'', ''et cetera'') = (Str ''^etc$'', ''et cetera'')"
proof -
  let ?w = "plain_word ''Mrs'' ''Mrs '' ''en_US'' []"
  have w: "interpret_as ?w = []" "lang ?w = ''en_US''" "text_with_ws ?w = ''Mrs ''"
    by (simp_all add: plain_word_def)
  have "split_abbreviations abbreviation_processor (WordNode ?w)
     = Inr [mk_word ''Mister'' ''Mister'' ''en_US'' ROLE_DEFAULT]"
    by (simp add: split_abbreviations_def w mr_settings literal_match_def tokenize_Mister)
  moreover have "abbreviation_regex [''.''] (Str ''^etc$'', ''et cetera'') = (Str ''^etc$'', ''et cetera'')"
    by (simp add: abbreviation_regex_def endswith_def)
  ultimately show ?thesis by blast
qed

section \<open>Exceptions of the collaborators\<close>










lemma one_word: "the_word (one_word_graph w) 0 = w"
  by (simp add: one_word_graph_def the_word_def node_data_def add_node_def empty_graph_def)


end
